theory Spec2Isabelle
  imports Complex_Main
begin

section \<open>Python and numpy primitives used by the mesh loaders\<close>

text \<open>
  The loaders of \<^verbatim>\<open>capytaine/io/mesh_loaders.py\<close> are modelled as pure functions
  that return either a Python exception (\<open>Inl\<close>) or a value (\<open>Inr\<close>).  Only the
  exception classes that the loaders can raise are listed.  \<open>IOError\<close> carries the
  message the source builds; \<open>UnboundLocalError\<close> carries the name of the local
  variable that was read before assignment.
\<close>

datatype py_error =
    IOError string
  | ValueError
  | IndexError
  | KeyError string
  | AttributeError
  | TypeError
  | OverflowError
  | UnboundLocalError string
  | NotImplementedError

definition andthen :: "'e + 'a \<Rightarrow> ('a \<Rightarrow> 'e + 'b) \<Rightarrow> 'e + 'b" where
  "andthen m f = (case m of Inl e \<Rightarrow> Inl e | Inr x \<Rightarrow> f x)"

text \<open>\<open>list(map(f, xs))\<close> where \<open>f\<close> may raise: the first failure wins.\<close>

fun map_err :: "('a \<Rightarrow> 'e + 'b) \<Rightarrow> 'a list \<Rightarrow> 'e + 'b list" where
  "map_err f [] = Inr []"
| "map_err f (x # xs) =
     (case f x of
        Inl e \<Rightarrow> Inl e
      | Inr y \<Rightarrow> (case map_err f xs of Inl e \<Rightarrow> Inl e | Inr ys \<Rightarrow> Inr (y # ys)))"

subsection \<open>Strings\<close>

text \<open>
  Characters are ASCII bytes.  \<open>is_space\<close> is the whitespace set of \<open>str.split()\<close>,
  \<open>str.strip()\<close> and \<open>int()\<close> restricted to ASCII.
\<close>

definition is_space :: "char \<Rightarrow> bool" where
  "is_space c = (c \<in> set [CHR '' '', CHR 0x09, CHR 0x0A, CHR 0x0B, CHR 0x0C, CHR 0x0D,
                            CHR 0x1C, CHR 0x1D, CHR 0x1E, CHR 0x1F])"

text \<open>\<open>s.split()\<close>: the maximal runs of non-whitespace characters.\<close>

fun split_acc :: "string \<Rightarrow> string \<Rightarrow> string list" where
  "split_acc cur [] = (if cur = [] then [] else [cur])"
| "split_acc cur (c # cs) =
     (if is_space c then (if cur = [] then split_acc [] cs else cur # split_acc [] cs)
      else split_acc (cur @ [c]) cs)"

definition py_split :: "string \<Rightarrow> string list" where
  "py_split s = split_acc [] s"

text \<open>\<open>s.split(sep)\<close> for a one-character separator: empty fields are kept.\<close>

fun split_on_acc :: "(char \<Rightarrow> bool) \<Rightarrow> string \<Rightarrow> string \<Rightarrow> string list" where
  "split_on_acc p cur [] = [cur]"
| "split_on_acc p cur (c # cs) =
     (if p c then cur # split_on_acc p [] cs else split_on_acc p (cur @ [c]) cs)"

definition py_split_on :: "char \<Rightarrow> string \<Rightarrow> string list" where
  "py_split_on sep s = split_on_acc (\<lambda>c. c = sep) [] s"

text \<open>\<open>re.split(r'[, ]', s)\<close>: a cut at every single comma or blank.\<close>

definition re_split_comma_blank :: "string \<Rightarrow> string list" where
  "re_split_comma_blank s = split_on_acc (\<lambda>c. c = CHR '','' \<or> c = CHR '' '') [] s"

definition strip_chars :: "(char \<Rightarrow> bool) \<Rightarrow> string \<Rightarrow> string" where
  "strip_chars p s = rev (dropWhile p (rev (dropWhile p s)))"

definition py_strip :: "string \<Rightarrow> string" where
  "py_strip s = strip_chars is_space s"

subsection \<open>\<open>int()\<close> on a string\<close>

text \<open>
  \<open>int(s)\<close> strips whitespace, reads an optional sign and then decimal digits, where
  single underscores may stand between digits.  Any other string raises
  \<open>ValueError\<close>.
\<close>

definition is_digit :: "char \<Rightarrow> bool" where
  "is_digit c = (c \<in> set ''0123456789'')"

definition digit_val :: "char \<Rightarrow> int" where
  "digit_val c = int (of_char c) - 48"

fun digits_ok :: "string \<Rightarrow> bool" where
  "digits_ok [] = False"
| "digits_ok [c] = is_digit c"
| "digits_ok (c # d # cs) =
     (is_digit c \<and> (if d = CHR ''_'' then digits_ok cs else digits_ok (d # cs)))"

definition digits_val :: "string \<Rightarrow> int" where
  "digits_val s = foldl (\<lambda>n c. 10 * n + digit_val c) 0 (filter is_digit s)"

definition py_int :: "string \<Rightarrow> py_error + int" where
  "py_int s =
     (let t = py_strip s;
          neg = (t \<noteq> [] \<and> hd t = CHR ''-'');
          body = (if t \<noteq> [] \<and> (hd t = CHR ''-'' \<or> hd t = CHR ''+'') then tl t else t)
      in if digits_ok body
         then Inr (if neg then - digits_val body else digits_val body)
         else Inl ValueError)"

subsection \<open>numpy arrays\<close>

text \<open>
  A two-dimensional array is the list of its rows.  \<open>np.asarray(rows, dtype=...)\<close>
  raises \<open>ValueError\<close> on rows of different lengths.  The empty list stands for an
  array without rows (numpy's shape \<open>(0,)\<close> or \<open>(0, w)\<close>).

  The integer dtype \<open>np.int\<close> is the 64-bit C long: a Python integer outside its
  range cannot be stored (\<open>OverflowError\<close>) and array arithmetic wraps around.
\<close>

definition np_rect :: "'a list list \<Rightarrow> py_error + 'a list list" where
  "np_rect rows =
     (if list_all (\<lambda>r. length r = length (hd rows)) rows then Inr rows else Inl ValueError)"

definition int64_ok :: "int \<Rightarrow> bool" where
  "int64_ok v = (- (2 ^ 63) \<le> v \<and> v < 2 ^ 63)"

definition wrap64 :: "int \<Rightarrow> int" where
  "wrap64 v = (v + 2 ^ 63) mod 2 ^ 64 - 2 ^ 63"

definition np_asarray_int :: "int list list \<Rightarrow> py_error + int list list" where
  "np_asarray_int rows =
     andthen (np_rect rows) (\<lambda>a.
       if list_all (list_all int64_ok) a then Inr a else Inl OverflowError)"

definition np_add_scalar :: "int list list \<Rightarrow> int \<Rightarrow> int list list" where
  "np_add_scalar a k = map (map (\<lambda>v. wrap64 (v + k))) a"

text \<open>\<open>np.concatenate((a, b))\<close> for a two-dimensional \<open>a\<close> with at least one row.\<close>

definition np_concatenate :: "'a list list \<Rightarrow> 'a list list \<Rightarrow> py_error + 'a list list" where
  "np_concatenate a b =
     (if b = [] \<or> length (hd b) \<noteq> length (hd a) then Inl ValueError else Inr (a @ b))"

text \<open>
  A Python index \<open>i\<close> into a sequence of length \<open>n\<close>: negative indices count from the
  end, anything else out of range raises \<open>IndexError\<close>.
\<close>

definition np_index :: "nat \<Rightarrow> int \<Rightarrow> py_error + nat" where
  "np_index n i =
     (if 0 \<le> i \<and> i < int n then Inr (nat i)
      else if - int n \<le> i \<and> i < 0 then Inr (nat (int n + i))
      else Inl IndexError)"

text \<open>
  \<open>a += v\<close> for a row array \<open>a\<close> and a one-dimensional \<open>v\<close>: \<open>v\<close> is added to
  every row when it is as long as a row, and its only entry is added everywhere
  when it has length one; other shapes do not broadcast.
\<close>

definition np_iadd_vec :: "('c::plus) list list \<Rightarrow> 'c list \<Rightarrow> py_error + 'c list list" where
  "np_iadd_vec a v =
     (if a = [] then (if length v \<le> 1 then Inr [] else Inl ValueError)
      else if length v = length (hd a) then Inr (map (\<lambda>r. map2 (+) r v) a)
      else if length v = 1 then Inr (map (map (\<lambda>x. x + hd v)) a)
      else Inl ValueError)"

text \<open>
  \<open>a[i, :] = b\<close> for a row array \<open>a\<close> with at least one row, an integer \<open>i\<close> and
  an array \<open>b\<close>: the index is checked first; then \<open>b\<close> must broadcast to one row,
  which it does only when it has a single row (of the row width or of width one).
\<close>

definition np_setrow :: "'c list list \<Rightarrow> int \<Rightarrow> 'c list list \<Rightarrow> py_error + 'c list list" where
  "np_setrow a i b =
     andthen (np_index (length a) i) (\<lambda>k.
       if b = [] then (if length (hd a) = 0 then Inr a else Inl ValueError)
       else if length b = 1 \<and> length (hd b) = length (hd a) then Inr (a[k := hd b])
       else if length b = 1 \<and> length (hd b) = 1
            then Inr (a[k := replicate (length (hd a)) (hd (hd b))])
       else Inl ValueError)"

section \<open>The mesh that every loader constructs\<close>

text \<open>
  Modelled from the spec: the mesh construction interface
  \<open>construct(vertices, faces, name?) -> Mesh\<close> and the symmetry wrapper
  \<open>wrap_symmetric(half_mesh, plane, name?) -> Mesh\<close>.  The classes \<open>Mesh\<close> and
  \<open>ReflectionSymmetricMesh\<close> that the loaders call are defined in other modules; they
  wrap the arrays they receive, and here they are constructors that record their
  arguments.
\<close>

datatype 'c mesh =
  Mesh (mesh_vertices: "'c list list") (mesh_faces: "int list list") (mesh_name: "string option")

datatype plane = xOz_Plane

datatype 'c loaded =
    Plain "'c mesh"
  | ReflectionSymmetricMesh "'c mesh" plane "string option"

section \<open>\<open>load_INP\<close>: the DIODORE configuration file\<close>

text \<open>
  The regular-expression engine is an external library.  The model takes what it
  returns on the text of a file: for the configuration file the groups of every
  \<open>*FRAME,NAME=\<close> match and of every \<open>*NODE\<close>/\<open>*ELEMENT\<close> match, for a \<open>.DAT\<close> file
  the node sections and the element sections, each given by the lines that
  \<open>pattern_node_line\<close> and \<open>pattern_elem_line\<close> find in it.  Floating-point numbers are
  values of a type \<open>'c\<close> with an addition; \<open>float()\<close> is the parameter \<open>flt\<close>.
\<close>

record inp_matches =
  frame_matches :: "(string \<times> string) list"
  directive_matches :: "(string \<times> string) list"

record dat_matches =
  node_sections :: "string list list"
  elem_sections :: "string list list"

record 'c mesh_file =
  NODE_CALL_INP :: nat
  ELEMENT_CALL_INP :: nat
  NODE_SECTION :: "'c list list"
  ELEM_SECTIONS :: "int list list list"
  nb_elem_sections :: nat
  nb_elem_sections_used :: nat

text \<open>
  A Python dictionary is the list of its items in insertion order: \<open>d[k]\<close> is
  \<open>dict_get d k\<close> (\<open>None\<close> stands for \<open>KeyError\<close>) and \<open>d[k] = v\<close> is
  \<open>dict_set k v d\<close>.
\<close>

type_synonym ('k, 'v) dict = "('k \<times> 'v) list"

definition dict_get :: "('k, 'v) dict \<Rightarrow> 'k \<Rightarrow> 'v option" where
  "dict_get d k = map_of d k"

fun dict_set :: "'k \<Rightarrow> 'v \<Rightarrow> ('k, 'v) dict \<Rightarrow> ('k, 'v) dict" where
  "dict_set k v [] = [(k, v)]"
| "dict_set k v ((k', v') # kvs) =
     (if k' = k then (k, v) # kvs else (k', v') # dict_set k v kvs)"

type_synonym field_dict = "(string, string) dict"

text \<open>Lines 216--220: the dictionary of frames.\<close>

fun parse_frames ::
  "(string \<Rightarrow> py_error + 'c) \<Rightarrow> (string \<times> string) list \<Rightarrow> (string, 'c list) dict
     \<Rightarrow> py_error + (string, 'c list) dict" where
  "parse_frames flt [] frames = Inr frames"
| "parse_frames flt ((g1, g2) # ms) frames =
     andthen (map_err flt (re_split_comma_blank (py_strip g2))) (\<lambda>vec.
       parse_frames flt ms (dict_set (py_strip g1) vec frames))"

text \<open>Lines 231--234: the options of one directive.\<close>

fun parse_opts :: "string list \<Rightarrow> field_dict \<Rightarrow> py_error + field_dict" where
  "parse_opts [] d = Inr d"
| "parse_opts (opt # opts) d =
     (case py_split_on (CHR ''='') opt of
        [key, pair] \<Rightarrow> parse_opts opts (dict_set key (py_strip pair) d)
      | _ \<Rightarrow> Inl ValueError)"

text \<open>
  Lines 237--244: the call counters of the data files.
\<close>

fun bump_call :: "string \<Rightarrow> nat \<times> nat \<Rightarrow> py_error + nat \<times> nat" where
  "bump_call ty (n, e) =
     (if ty = ''NODE'' then Inr (n + 1, e)
      else if ty = ''ELEMENT'' then Inr (n, e + 1)
      else Inl (KeyError (ty @ ''_CALL_INP'')))"

fun parse_layout ::
  "(string \<times> string) list \<Rightarrow> field_dict list \<Rightarrow> (string, nat \<times> nat) dict
     \<Rightarrow> py_error + field_dict list \<times> (string, nat \<times> nat) dict" where
  "parse_layout [] layout calls = Inr (layout, calls)"
| "parse_layout ((g1, g2) # ms) layout calls =
     andthen
       (parse_opts (py_split_on (CHR '','') g2)
          (if g1 = ''NODE'' then [(''type'', g1), (''INCREMENT'', ''NO'')]
           else [(''type'', g1)]))
       (\<lambda>field_dict.
          case dict_get field_dict ''INPUT'' of
            None \<Rightarrow> Inl (KeyError ''INPUT'')
          | Some file \<Rightarrow>
              andthen
                (case dict_get field_dict ''type'' of
                   None \<Rightarrow> Inl (KeyError ''type'')
                 | Some ty \<Rightarrow>
                     bump_call ty
                       (case dict_get calls file of None \<Rightarrow> (0, 0) | Some c \<Rightarrow> c))
                (\<lambda>c. parse_layout ms (layout @ [field_dict]) (dict_set file c calls)))"

text \<open>Lines 271--279: the node lines of the single node section.\<close>

definition read_node :: "(string \<Rightarrow> py_error + 'c) \<Rightarrow> string \<Rightarrow> py_error + int \<times> 'c list" where
  "read_node flt node =
     (case py_split node of
        [] \<Rightarrow> Inl IndexError
      | t # ts \<Rightarrow> andthen (py_int t) (\<lambda>i. andthen (map_err flt ts) (\<lambda>xs. Inr (i, xs))))"

text \<open>Lines 284--289: the renumbering table \<open>id_new\<close>.\<close>

fun assign_ids :: "nat \<Rightarrow> int list \<Rightarrow> int list \<Rightarrow> py_error + int list" where
  "assign_ids i [] id_new = Inr id_new"
| "assign_ids i (idx # idx_array) id_new =
     andthen (np_index (length id_new) idx) (\<lambda>k.
       assign_ids (i + 1) idx_array (id_new[k := int i + 1]))"

definition make_id_new :: "int list \<Rightarrow> py_error + int list" where
  "make_id_new idx_array =
     (if idx_array = [] then Inl ValueError
      else if Max (set idx_array) + 1 < 0 then Inl ValueError
      else assign_ids 0 idx_array (replicate (nat (Max (set idx_array) + 1)) (- 1)))"

text \<open>Lines 295--302: one element line, renumbered, a triangle padded.\<close>

definition read_elem :: "int list \<Rightarrow> string \<Rightarrow> py_error + int list" where
  "read_elem id_new elem =
     andthen (map_err py_int (py_split elem)) (\<lambda>ints.
       andthen
         (map_err (\<lambda>v. andthen (np_index (length id_new) v) (\<lambda>k. Inr (id_new ! k))) (tl ints))
         (\<lambda>ids. Inr (if length ids = 3 then ids @ [hd ids] else ids)))"

text \<open>
  Lines 259--306 for one data file.  The second component is the value that the
  loop variable \<open>idx\<close> of line 288 has when the loop is left.
\<close>

definition read_DAT ::
  "(string \<Rightarrow> py_error + 'c) \<Rightarrow> string \<Rightarrow> dat_matches option \<Rightarrow> nat \<times> nat
     \<Rightarrow> py_error + 'c mesh_file \<times> int" where
  "read_DAT flt file dat calls =
     (case dat of
        None \<Rightarrow> Inl (IOError (''File '' @ file @ ''.DAT not found''))
      | Some data \<Rightarrow>
          if length (node_sections data) > 1
          then Inl (IOError ''Several NODE sections into a .DAT file is not supported'')
          else if node_sections data = [] then Inl IndexError
          else
            andthen (map_err (read_node flt) (hd (node_sections data))) (\<lambda>nodes.
            andthen (make_id_new (map fst nodes)) (\<lambda>id_new.
            andthen (map_err (map_err (read_elem id_new)) (elem_sections data)) (\<lambda>secs.
              Inr (\<lparr>NODE_CALL_INP = fst calls, ELEMENT_CALL_INP = snd calls,
                     NODE_SECTION = map snd nodes, ELEM_SECTIONS = secs,
                     nb_elem_sections = length secs, nb_elem_sections_used = 0\<rparr>,
                   last (map fst nodes))))))"

fun read_files ::
  "(string \<Rightarrow> py_error + 'c) \<Rightarrow> (string \<Rightarrow> dat_matches option) \<Rightarrow> (string, nat \<times> nat) dict
     \<Rightarrow> (string, 'c mesh_file) dict \<Rightarrow> int option
     \<Rightarrow> py_error + (string, 'c mesh_file) dict \<times> int option" where
  "read_files flt open_DAT [] files idx = Inr (files, idx)"
| "read_files flt open_DAT ((file, calls) # rest) files idx =
     andthen (read_DAT flt file (open_DAT file) calls) (\<lambda>(mf, idx').
       read_files flt open_DAT rest (dict_set file mf files) (Some idx'))"

text \<open>Lines 308--349: the replay of the directives.\<close>

record 'c inp_state =
  nb_nodes :: nat
  nb_elems :: nat
  vertices :: "'c list list option"
  faces :: "int list list option"
  increment :: "bool option"
  mesh_files :: "(string, 'c mesh_file) dict"

definition replay_NODE ::
  "(string, ('c::plus) list) dict \<Rightarrow> int option \<Rightarrow> field_dict \<Rightarrow> string \<Rightarrow> 'c inp_state
     \<Rightarrow> py_error + 'c inp_state" where
  "replay_NODE frames idx field file s =
     (case dict_get (mesh_files s) file of
        None \<Rightarrow> Inl (KeyError file)
      | Some mf \<Rightarrow>
          andthen (np_rect (NODE_SECTION mf)) (\<lambda>nodes0.
            case dict_get field ''FRAME'' of
              None \<Rightarrow> Inl (KeyError ''FRAME'')
            | Some fr \<Rightarrow>
                (case dict_get frames fr of
                   None \<Rightarrow> Inl (KeyError fr)
                 | Some vec \<Rightarrow>
                     andthen (np_iadd_vec nodes0 vec) (\<lambda>nodes.
                       if nb_nodes s = 0
                       then Inr (s\<lparr>vertices := Some nodes, nb_nodes := length nodes,
                                   increment := Some False\<rparr>)
                       else
                         case dict_get field ''INCREMENT'' of
                           None \<Rightarrow> Inl (KeyError ''INCREMENT'')
                         | Some inc \<Rightarrow>
                             if inc = ''NO''
                             then
                               (case vertices s of
                                  None \<Rightarrow> Inl (UnboundLocalError ''vertices'')
                                | Some v \<Rightarrow>
                                    (case idx of
                                       None \<Rightarrow> Inl (UnboundLocalError ''idx'')
                                     | Some i \<Rightarrow>
                                         andthen (np_setrow v i nodes) (\<lambda>v'.
                                           Inr (s\<lparr>vertices := Some v',
                                                   increment := Some False\<rparr>))))
                             else
                               (case vertices s of
                                  None \<Rightarrow> Inl (UnboundLocalError ''vertices'')
                                | Some v \<Rightarrow>
                                    andthen (np_concatenate v nodes) (\<lambda>v'.
                                      Inr (s\<lparr>vertices := Some v', nb_nodes := length v',
                                              increment := Some True\<rparr>)))))))"

definition replay_ELEMENT :: "string \<Rightarrow> 'c inp_state \<Rightarrow> py_error + 'c inp_state" where
  "replay_ELEMENT file s =
     (case dict_get (mesh_files s) file of
        None \<Rightarrow> Inl (KeyError file)
      | Some mf \<Rightarrow>
          if length (ELEM_SECTIONS mf) \<le> nb_elem_sections_used mf then Inl IndexError
          else
            andthen (np_asarray_int (ELEM_SECTIONS mf ! nb_elem_sections_used mf))
              (\<lambda>elem_section.
                 let used = nb_elem_sections_used mf + 1;
                     mf' = mf\<lparr>nb_elem_sections_used :=
                                (if used = nb_elem_sections mf then 0 else used)\<rparr>;
                     s' = s\<lparr>mesh_files := dict_set file mf' (mesh_files s)\<rparr>
                 in case increment s of
                      None \<Rightarrow> Inl (UnboundLocalError ''increment'')
                    | Some inc \<Rightarrow>
                        let elems = (if inc then np_add_scalar elem_section (int (nb_nodes s))
                                     else elem_section)
                        in if nb_elems s = 0
                           then Inr (s'\<lparr>faces := Some elems, nb_elems := length elems\<rparr>)
                           else
                             (case faces s of
                                None \<Rightarrow> Inl (UnboundLocalError ''faces'')
                              | Some f \<Rightarrow>
                                  andthen (np_concatenate f elems) (\<lambda>f'.
                                    Inr (s'\<lparr>faces := Some f', nb_elems := length f'\<rparr>)))))"

definition replay_field ::
  "(string, ('c::plus) list) dict \<Rightarrow> int option \<Rightarrow> field_dict \<Rightarrow> 'c inp_state
     \<Rightarrow> py_error + 'c inp_state" where
  "replay_field frames idx field s =
     (case dict_get field ''INPUT'' of
        None \<Rightarrow> Inl (KeyError ''INPUT'')
      | Some file \<Rightarrow>
          (case dict_get field ''type'' of
             None \<Rightarrow> Inl (KeyError ''type'')
           | Some ty \<Rightarrow>
               if ty = ''NODE'' then replay_NODE frames idx field file s
               else replay_ELEMENT file s))"

fun replay ::
  "(string, ('c::plus) list) dict \<Rightarrow> int option \<Rightarrow> field_dict list \<Rightarrow> 'c inp_state
     \<Rightarrow> py_error + 'c inp_state" where
  "replay frames idx [] s = Inr s"
| "replay frames idx (field # layout) s =
     andthen (replay_field frames idx field s) (replay frames idx layout)"

definition init_state :: "(string, 'c mesh_file) dict \<Rightarrow> 'c inp_state" where
  "init_state files =
     \<lparr>nb_nodes = 0, nb_elems = 0, vertices = None, faces = None, increment = None,
      mesh_files = files\<rparr>"

text \<open>Line 351: \<open>return Mesh(vertices, faces-1, name)\<close>.\<close>

definition finish :: "'c inp_state \<Rightarrow> string option \<Rightarrow> py_error + 'c mesh" where
  "finish s name =
     (case vertices s of
        None \<Rightarrow> Inl (UnboundLocalError ''vertices'')
      | Some v \<Rightarrow>
          (case faces s of
             None \<Rightarrow> Inl (UnboundLocalError ''faces'')
           | Some f \<Rightarrow> Inr (Mesh v (np_add_scalar f (- 1)) name)))"

definition load_INP ::
  "(string \<Rightarrow> py_error + ('c::plus)) \<Rightarrow> inp_matches \<Rightarrow> (string \<Rightarrow> dat_matches option)
     \<Rightarrow> string option \<Rightarrow> py_error + 'c mesh" where
  "load_INP flt text open_DAT name =
     andthen (parse_frames flt (frame_matches text) []) (\<lambda>frames.
     andthen (parse_layout (directive_matches text) [] []) (\<lambda>(layout, calls).
     andthen (read_files flt open_DAT calls [] None) (\<lambda>(files, idx).
     andthen (replay frames idx layout (init_state files)) (\<lambda>s.
       finish s name))))"




section \<open>The loaders that read a file line by line\<close>

text \<open>
  A text file is the list of its lines.  \<open>ifile.readline()\<close> returns the next line and
  the empty string at the end of the file; the line terminators play no role, since
  every line goes through \<open>split()\<close> or \<open>int()\<close>.
\<close>

definition readline :: "string list \<Rightarrow> string \<times> string list" where
  "readline ls = (case ls of [] \<Rightarrow> ([], []) | l # r \<Rightarrow> (l, r))"

text \<open>
  \<open>for i in range(n): rows.append(list(map(conv, ifile.readline().split())))\<close>
\<close>

fun read_rows ::
  "(string \<Rightarrow> py_error + 'a) \<Rightarrow> nat \<Rightarrow> string list \<Rightarrow> py_error + 'a list list \<times> string list" where
  "read_rows conv 0 ls = Inr ([], ls)"
| "read_rows conv (Suc n) ls =
     andthen (map_err conv (py_split (fst (readline ls)))) (\<lambda>row.
     andthen (read_rows conv n (snd (readline ls))) (\<lambda>(rows, rest).
       Inr (row # rows, rest)))"

text \<open>The next \<open>n\<close> lines that \<open>readline\<close> returns.\<close>

fun next_lines :: "nat \<Rightarrow> string list \<Rightarrow> string list" where
  "next_lines 0 ls = []"
| "next_lines (Suc n) ls = fst (readline ls) # next_lines n (snd (readline ls))"

subsection \<open>\<open>load_NAT\<close>\<close>

definition load_NAT ::
  "(string \<Rightarrow> py_error + 'c) \<Rightarrow> string list \<Rightarrow> string option \<Rightarrow> py_error + 'c mesh" where
  "load_NAT flt ifile name =
     (let ls1 = snd (readline ifile) in
      andthen (map_err py_int (py_split (fst (readline ls1)))) (\<lambda>counts.
        case counts of
          [nv, nf] \<Rightarrow>
            andthen (read_rows flt (nat nv) (snd (readline ls1))) (\<lambda>(vs, ls2).
            andthen (np_rect vs) (\<lambda>vertices.
            andthen (read_rows py_int (nat nf) ls2) (\<lambda>(fs, ls3).
            andthen (np_asarray_int fs) (\<lambda>faces.
              Inr (Mesh vertices (np_add_scalar faces (- 1)) name)))))
        | _ \<Rightarrow> Inl ValueError))"

subsection \<open>\<open>load_NEM\<close>\<close>

definition load_NEM ::
  "(string \<Rightarrow> py_error + 'c) \<Rightarrow> string list \<Rightarrow> string option \<Rightarrow> py_error + 'c mesh" where
  "load_NEM flt ifile name =
     andthen (py_int (fst (readline ifile))) (\<lambda>nv.
     andthen (py_int (fst (readline (snd (readline ifile))))) (\<lambda>nf.
     andthen (read_rows flt (nat nv) (snd (readline (snd (readline ifile))))) (\<lambda>(vs, ls2).
     andthen (np_rect vs) (\<lambda>vertices.
     andthen (read_rows py_int (nat nf) ls2) (\<lambda>(fs, ls3).
     andthen (np_asarray_int fs) (\<lambda>faces.
       Inr (Mesh vertices (np_add_scalar faces (- 1)) name)))))))"

subsection \<open>\<open>load_GDF\<close>\<close>

text \<open>
  \<open>vertices[iv, :] = np.array(ifile.readline().split())\<close>: the tokens are cast to
  floating point and must broadcast to the three columns of the row, which three
  tokens and a single token do.
\<close>

definition gdf_row :: "(string \<Rightarrow> py_error + 'c) \<Rightarrow> string \<Rightarrow> py_error + 'c list" where
  "gdf_row flt line =
     andthen (map_err flt (py_split line)) (\<lambda>xs.
       if length xs = 3 then Inr xs
       else if length xs = 1 then Inr (replicate 3 (hd xs))
       else Inl ValueError)"

text \<open>The inner loop \<open>for k in range(4)\<close> and the outer loop \<open>for icell in range(nf)\<close>.\<close>

fun read_GDF_face ::
  "(string \<Rightarrow> py_error + 'c) \<Rightarrow> nat \<Rightarrow> int \<Rightarrow> string list
     \<Rightarrow> py_error + 'c list list \<times> int list \<times> int \<times> string list" where
  "read_GDF_face flt 0 iv ls = Inr ([], [], iv, ls)"
| "read_GDF_face flt (Suc k) iv ls =
     andthen (gdf_row flt (fst (readline ls))) (\<lambda>row.
     andthen (read_GDF_face flt k (iv + 1) (snd (readline ls))) (\<lambda>(rows, ids, iv', rest).
       Inr (row # rows, (iv + 1) # ids, iv', rest)))"

fun read_GDF_faces ::
  "(string \<Rightarrow> py_error + 'c) \<Rightarrow> nat \<Rightarrow> int \<Rightarrow> string list
     \<Rightarrow> py_error + 'c list list \<times> int list list" where
  "read_GDF_faces flt 0 iv ls = Inr ([], [])"
| "read_GDF_faces flt (Suc n) iv ls =
     andthen (read_GDF_face flt 4 iv ls) (\<lambda>(rows, ids, iv', rest).
     andthen (read_GDF_faces flt n iv' rest) (\<lambda>(vs, fs).
       Inr (rows @ vs, ids # fs)))"

text \<open>
  \<open>ulen\<close>, \<open>grav\<close>, \<open>isx\<close> and \<open>isy\<close> are kept as the tokens they are; reading them
  raises \<open>IndexError\<close> on a line with fewer than two tokens.
\<close>

definition two_tokens :: "string \<Rightarrow> py_error + string \<times> string" where
  "two_tokens line =
     (case py_split line of
        a # b # _ \<Rightarrow> Inr (a, b)
      | _ \<Rightarrow> Inl IndexError)"

definition load_GDF ::
  "(string \<Rightarrow> py_error + 'c) \<Rightarrow> string list \<Rightarrow> string option \<Rightarrow> py_error + 'c mesh" where
  "load_GDF flt ifile name =
     (let ls1 = snd (readline ifile) in
      andthen (two_tokens (fst (readline ls1))) (\<lambda>(ulen, grav).
        let ls2 = snd (readline ls1) in
        andthen (two_tokens (fst (readline ls2))) (\<lambda>(isx, isy).
          let ls3 = snd (readline ls2) in
          case py_split (fst (readline ls3)) of
            [] \<Rightarrow> Inl IndexError
          | t # _ \<Rightarrow>
              andthen (py_int t) (\<lambda>nf.
                if nf < 0 then Inl ValueError
                else
                  andthen (read_GDF_faces flt (nat nf) (- 1) (snd (readline ls3)))
                    (\<lambda>(vertices, faces). Inr (Mesh vertices faces name))))))"

subsection \<open>\<open>load_MAR\<close>\<close>

text \<open>
  The two \<open>while 1\<close> loops: lines are read until one whose first token is \<open>0\<close>; a line
  without a token, as at the end of the file, raises \<open>IndexError\<close>.  A vertex line
  loses its first token.
\<close>

fun read_MAR_vertices ::
  "(string \<Rightarrow> py_error + 'c) \<Rightarrow> string list \<Rightarrow> py_error + 'c list list \<times> string list" where
  "read_MAR_vertices flt [] = Inl IndexError"
| "read_MAR_vertices flt (l # ls) =
     (case py_split l of
        [] \<Rightarrow> Inl IndexError
      | t # ts \<Rightarrow>
          if t = ''0'' then Inr ([], ls)
          else
            andthen (map_err flt ts) (\<lambda>row.
            andthen (read_MAR_vertices flt ls) (\<lambda>(rows, rest). Inr (row # rows, rest))))"

fun read_MAR_faces :: "string list \<Rightarrow> py_error + int list list \<times> string list" where
  "read_MAR_faces [] = Inl IndexError"
| "read_MAR_faces (l # ls) =
     (case py_split l of
        [] \<Rightarrow> Inl IndexError
      | t # ts \<Rightarrow>
          if t = ''0'' then Inr ([], ls)
          else
            andthen (map_err py_int (t # ts)) (\<lambda>row.
            andthen (read_MAR_faces ls) (\<lambda>(rows, rest). Inr (row # rows, rest))))"

definition load_MAR ::
  "(string \<Rightarrow> py_error + 'c) \<Rightarrow> string list \<Rightarrow> string option \<Rightarrow> py_error + 'c loaded" where
  "load_MAR flt ifile name =
     (case py_split (fst (readline ifile)) of
        [u, symmetric_mesh] \<Rightarrow>
          andthen (read_MAR_vertices flt (snd (readline ifile))) (\<lambda>(vs, ls1).
          andthen (np_rect vs) (\<lambda>vertices.
          andthen (read_MAR_faces ls1) (\<lambda>(fs, ls2).
          andthen (np_asarray_int fs) (\<lambda>faces.
          andthen (py_int symmetric_mesh) (\<lambda>sym.
            if sym = 1 then
              (case name of
                 None \<Rightarrow>
                   Inr (ReflectionSymmetricMesh
                          (Mesh vertices (np_add_scalar faces (- 1)) None) xOz_Plane None)
               | Some n \<Rightarrow>
                   Inr (ReflectionSymmetricMesh
                          (Mesh vertices (np_add_scalar faces (- 1)) (Some (''half_of_'' @ n)))
                          xOz_Plane (Some n)))
            else Inr (Plain (Mesh vertices (np_add_scalar faces (- 1)) name)))))))
      | _ \<Rightarrow> Inl ValueError)"

text \<open>The sentinel of a Nemoh file: a line whose first token is \<open>0\<close>.\<close>

definition is_sentinel :: "string \<Rightarrow> bool" where
  "is_sentinel l = (case py_split l of [] \<Rightarrow> False | t # ts \<Rightarrow> t = ''0'')"

section \<open>The loaders that search the text with regular expressions\<close>

text \<open>
  As for \<open>load_INP\<close>, these loaders are functions of what the regular-expression
  engine returns on the text of the file: \<open>None\<close> or the groups for \<open>search\<close>, the
  list of the matches for \<open>findall\<close> and \<open>finditer\<close>.
\<close>

subsection \<open>\<open>load_RAD\<close>\<close>

text \<open>
  \<open>rad_node_section\<close> is the result of \<open>pattern_node_section.search(data)\<close>, given by the
  three groups of every match of \<open>pattern_node_line\<close> in its first group;
  \<open>rad_elem_section\<close> is the result of \<open>pattern_elem_section.search(data)\<close>, given by the
  matches of \<open>pattern_elem_line\<close> in its first group.
\<close>

record rad_matches =
  rad_node_section :: "(string \<times> string \<times> string) list option"
  rad_elem_section :: "string list option"

definition load_RAD ::
  "(string \<Rightarrow> py_error + 'c) \<Rightarrow> rad_matches \<Rightarrow> string option \<Rightarrow> py_error + 'c mesh" where
  "load_RAD flt data name =
     (case rad_node_section data of
        None \<Rightarrow> Inl AttributeError
      | Some nodes \<Rightarrow>
          andthen (map_err (\<lambda>(x, y, z). map_err flt [x, y, z]) nodes) (\<lambda>vs.
          andthen (np_rect vs) (\<lambda>vertices.
            case rad_elem_section data of
              None \<Rightarrow> Inl AttributeError
            | Some elems \<Rightarrow>
                andthen
                  (map_err (\<lambda>elem. map_err py_int (drop 3 (py_split (py_strip elem)))) elems)
                  (\<lambda>fs.
                andthen (np_asarray_int fs) (\<lambda>faces.
                  Inr (Mesh vertices (np_add_scalar faces (- 1)) name))))))"

subsection \<open>\<open>load_HST\<close>\<close>

text \<open>
  The sections that \<open>pattern_node_section\<close> and \<open>pattern_elem_section\<close> find are given
  as for a \<open>.DAT\<close> file.  The accumulators \<open>vertices_tmp\<close> and \<open>faces_tmp\<close> start as
  Python lists and are rebound to arrays at the end of the first pass of their loop;
  they are not reset, so that \<open>append\<close> in a later pass is called on an array, which
  has no such attribute.
\<close>

datatype 'a py_seq = PyList "'a list list" | NdArray "'a list list"

definition append_rows ::
  "(string \<Rightarrow> py_error + 'a list) \<Rightarrow> string list \<Rightarrow> 'a py_seq \<Rightarrow> py_error + 'a list list" where
  "append_rows conv lines tmp =
     (case tmp of
        PyList rows \<Rightarrow> andthen (map_err conv lines) (\<lambda>new. Inr (rows @ new))
      | NdArray a \<Rightarrow> if lines = [] then Inr a else Inl AttributeError)"

fun read_HST_sections ::
  "(string \<Rightarrow> py_error + 'a list) \<Rightarrow> ('a list list \<Rightarrow> py_error + 'a list list)
     \<Rightarrow> string list list \<Rightarrow> 'a py_seq \<Rightarrow> 'a list list \<Rightarrow> nat \<Rightarrow> py_error + 'a list list" where
  "read_HST_sections conv asarray [] tmp acc n = Inr acc"
| "read_HST_sections conv asarray (sec # secs) tmp acc n =
     andthen (append_rows conv sec tmp) (\<lambda>rows.
     andthen (asarray rows) (\<lambda>a.
       if n = 0 then read_HST_sections conv asarray secs (NdArray a) a (length rows)
       else
         andthen (np_concatenate acc a) (\<lambda>acc'.
           read_HST_sections conv asarray secs (NdArray a) acc' (n + length rows))))"

definition load_HST ::
  "(string \<Rightarrow> py_error + 'c) \<Rightarrow> dat_matches \<Rightarrow> string option \<Rightarrow> py_error + 'c mesh" where
  "load_HST flt data name =
     andthen
       (read_HST_sections (\<lambda>node. map_err flt (tl (py_split node))) np_rect
          (node_sections data) (PyList []) [] 0)
       (\<lambda>vertices.
     andthen
       (read_HST_sections (\<lambda>elem. map_err py_int (py_split elem)) np_asarray_int
          (elem_sections data) (PyList []) [] 0)
       (\<lambda>faces.
          if elem_sections data = [] then Inl TypeError
          else Inr (Mesh vertices (np_add_scalar faces (- 1)) name)))"

subsection \<open>\<open>load_TEC\<close>\<close>

text \<open>
  \<open>a.reshape((n, w))\<close> of a flat array with \<open>n * w\<close> entries, row by row.
\<close>

definition reshape_rows :: "nat \<Rightarrow> nat \<Rightarrow> 'a list \<Rightarrow> 'a list list" where
  "reshape_rows n w xs = map (\<lambda>i. take w (drop (i * w) xs)) [0..<n]"

text \<open>
  \<open>a.reshape((nv, -1))\<close>: the number of rows must be positive and divide the size.
  \<open>a.reshape((nf, 4))\<close>: the size must be \<open>4 * nf\<close>, where \<open>nf = -1\<close> stands for the
  number of rows that fits.
\<close>

definition reshape_unknown_width :: "int \<Rightarrow> 'a list \<Rightarrow> py_error + 'a list list" where
  "reshape_unknown_width nv xs =
     (if nv \<le> 0 \<or> length xs mod nat nv \<noteq> 0 then Inl ValueError
      else Inr (reshape_rows (nat nv) (length xs div nat nv) xs))"

definition reshape_width4 :: "int \<Rightarrow> 'a list \<Rightarrow> py_error + 'a list list" where
  "reshape_width4 nf xs =
     (if nf = - 1 then
        (if length xs mod 4 = 0 then Inr (reshape_rows (length xs div 4) 4 xs)
         else Inl ValueError)
      else if 0 \<le> nf \<and> length xs = 4 * nat nf then Inr (reshape_rows (nat nf) 4 xs)
      else Inl ValueError)"

text \<open>
  The argument \<open>found\<close> is the result of \<open>data_pattern.search(data)\<close>: its four groups.
\<close>

definition load_TEC ::
  "(string \<Rightarrow> py_error + 'c) \<Rightarrow> (string \<times> string \<times> string \<times> string) option \<Rightarrow> string option
     \<Rightarrow> py_error + 'c mesh" where
  "load_TEC flt found name =
     (case found of
        None \<Rightarrow> Inl AttributeError
      | Some (nv_s, nf_s, vertices_s, faces_s) \<Rightarrow>
          andthen (py_int nv_s) (\<lambda>nv.
          andthen (py_int nf_s) (\<lambda>nf.
          andthen (map_err flt (py_split vertices_s)) (\<lambda>xs.
          andthen (reshape_unknown_width nv xs) (\<lambda>rows.
          andthen (map_err py_int (py_split faces_s)) (\<lambda>ids.
            if \<not> list_all int64_ok ids then Inl OverflowError
            else
              andthen (reshape_width4 nf ids) (\<lambda>faces.
                Inr (Mesh (map (take 3) rows) (np_add_scalar faces (- 1)) name))))))))"

subsection \<open>\<open>load_MSH\<close>\<close>

text \<open>
  \<open>Nodes\<close> and \<open>Elements\<close> are the results of the two calls of \<open>re.search\<close> (the
  count and the text of the block); \<open>tri_elts\<close> and \<open>quad_elts\<close> are the lines that
  the two calls of \<open>re.findall\<close> return on the text of the element block.
\<close>

record msh_matches =
  Nodes :: "(string \<times> string) option"
  Elements :: "(string \<times> string) option"
  tri_elts :: "string list"
  quad_elts :: "string list"

text \<open>\<open>xs[-n:]\<close>: the last \<open>n\<close> entries, all of them when there are fewer.\<close>

definition py_last :: "nat \<Rightarrow> 'a list \<Rightarrow> 'a list" where
  "py_last n xs = drop (length xs - n) xs"

definition read_triangle :: "string \<Rightarrow> py_error + int list" where
  "read_triangle tri_elt =
     andthen (map_err py_int (py_split tri_elt)) (\<lambda>ints.
       case py_last 3 ints of
         [] \<Rightarrow> Inl IndexError
       | a # r \<Rightarrow> Inr ((a # r) @ [a]))"

definition read_quadrangle :: "string \<Rightarrow> py_error + int list" where
  "read_quadrangle quad_elt =
     andthen (map_err py_int (py_split quad_elt)) (\<lambda>ints. Inr (py_last 4 ints))"

definition load_MSH ::
  "(string \<Rightarrow> py_error + 'c) \<Rightarrow> msh_matches \<Rightarrow> string option \<Rightarrow> py_error + 'c mesh" where
  "load_MSH flt data name =
     (case Nodes data of
        None \<Rightarrow> Inl AttributeError
      | Some (nb_nodes_s, nodes_data) \<Rightarrow>
          (case Elements data of
             None \<Rightarrow> Inl AttributeError
           | Some (nb_elts_s, elts_data) \<Rightarrow>
               andthen (map_err flt (py_split nodes_data)) (\<lambda>xs.
                 if length xs mod 4 \<noteq> 0 then Inl ValueError
                 else
                   andthen (map_err read_triangle (tri_elts data)) (\<lambda>tris.
                   andthen (map_err read_quadrangle (quad_elts data)) (\<lambda>quads.
                   andthen (np_asarray_int (tris @ quads)) (\<lambda>faces.
                     Inr (Mesh (map tl (reshape_rows (length xs div 4) 4 xs))
                            (np_add_scalar faces (- 1)) name)))))))"

section \<open>\<open>_dump_vtk\<close>\<close>





section \<open>The dispatcher \<open>load_mesh\<close>\<close>

text \<open>
  The registry \<open>extension_dict\<close> maps a keyword to a loader; the loaders are named by
  the suffix of their function.  \<open>os.path.isfile\<close> is the parameter \<open>isfile\<close>, and the
  call \<open>loader(filename, name)\<close> is the parameter \<open>run\<close>, which stands for the loaders
  applied to the file system.
\<close>

datatype loader =
  MAR | GDF | INP | DAT | HST | NAT | MSH | RAD | STL | VTU | VTP | VTK | TEC | MED | WRL | NEM

definition extension_dict :: "(string, loader) dict" where
  "extension_dict =
     [(''dat'', MAR), (''mar'', MAR), (''nemoh'', MAR), (''wamit'', GDF), (''gdf'', GDF),
      (''diodore-inp'', INP), (''inp'', INP), (''diodore-dat'', DAT), (''hydrostar'', HST),
      (''hst'', HST), (''natural'', NAT), (''nat'', NAT), (''gmsh'', MSH), (''msh'', MSH),
      (''rad'', RAD), (''radioss'', RAD), (''stl'', STL), (''vtu'', VTU), (''vtp'', VTP),
      (''paraview-legacy'', VTK), (''vtk'', VTK), (''tecplot'', TEC), (''tec'', TEC),
      (''med'', MED), (''salome'', MED), (''vrml'', WRL), (''wrl'', WRL), (''nem'', NEM),
      (''nemoh_mesh'', NEM)]"

definition check_file :: "(string \<Rightarrow> bool) \<Rightarrow> string \<Rightarrow> py_error + unit" where
  "check_file isfile filename =
     (if \<not> isfile filename then Inl (IOError (''file '' @ filename @ '' not found''))
      else Inr ())"

text \<open>
  The second component of \<open>os.path.splitext\<close> on a POSIX path: the part of the last
  path component from its last dot on, provided a character other than a dot stands
  before that dot; the empty string otherwise.
\<close>

definition splitext_ext :: "string \<Rightarrow> string" where
  "splitext_ext p =
     (let base = rev (takeWhile (\<lambda>c. c \<noteq> CHR ''/'') (rev p));
          ext = rev (takeWhile (\<lambda>c. c \<noteq> CHR ''.'') (rev base));
          stem = take (length base - length ext - 1) base
      in if CHR ''.'' \<in> set base \<and> list_ex (\<lambda>c. c \<noteq> CHR ''.'') stem
         then CHR ''.'' # ext else [])"

definition load_mesh ::
  "(string \<Rightarrow> bool) \<Rightarrow> (loader \<Rightarrow> string \<Rightarrow> string option \<Rightarrow> py_error + 'r)
     \<Rightarrow> string \<Rightarrow> string option \<Rightarrow> string option \<Rightarrow> py_error + 'r" where
  "load_mesh isfile run filename file_format name =
     andthen (check_file isfile filename) (\<lambda>u.
       let fmt = (case file_format of
                    None \<Rightarrow> strip_chars (\<lambda>c. c = CHR ''.'') (splitext_ext filename)
                  | Some f \<Rightarrow> f)
       in case dict_get extension_dict fmt of
            None \<Rightarrow>
              Inl (IOError (''Extension '' @ [CHR 0x22] @ ''.'' @ fmt @ [CHR 0x22]
                              @ '' is not known''))
          | Some loader \<Rightarrow> run loader filename name)"

text \<open>
  Two more notions for the statements: every token of a list is accepted by a
  conversion, and the rows of all element sections that a dictionary of data files
  holds.
\<close>

definition all_convert :: "(string \<Rightarrow> py_error + 'a) \<Rightarrow> string list \<Rightarrow> bool" where
  "all_convert conv toks = list_all (\<lambda>t. \<not> isl (conv t)) toks"



subsection \<open>A small configuration used in the examples\<close>

text \<open>
  \<open>example_float\<close> is \<open>float()\<close> on the few tokens that occur in the examples.  The
  data file \<open>A\<close> holds two nodes, numbered 1 and 2, and two element sections of one
  triangle each; the data file \<open>B\<close> holds one node and no element section; the data
  file \<open>C\<close> holds three nodes, numbered 10, 20 and 30, and one triangle.  The
  configuration declares the frame \<open>F0\<close> and the given directives.
\<close>

definition example_float :: "string \<Rightarrow> py_error + real" where
  "example_float s =
     (if s = ''0.0'' then Inr 0 else if s = ''1.0'' \<or> s = ''1'' then Inr 1
      else if s = ''2'' then Inr 2 else if s = ''3'' then Inr 3 else Inl ValueError)"

definition dat_A :: dat_matches where
  "dat_A = \<lparr>node_sections = [['' 1 0.0 0.0 0.0'', '' 2 1.0 0.0 0.0'']],
            elem_sections = [['' 1 1 2 2''], ['' 2 2 1 1'']]\<rparr>"

definition dat_B :: dat_matches where
  "dat_B = \<lparr>node_sections = [['' 1 0.0 0.0 0.0'']], elem_sections = []\<rparr>"

definition dat_C :: dat_matches where
  "dat_C = \<lparr>node_sections = [['' 10 0.0 0.0 0.0'', '' 20 1.0 0.0 0.0'', '' 30 0.0 1.0 0.0'']],
            elem_sections = [['' 1 10 20 30'']]\<rparr>"

definition open_example :: "string \<Rightarrow> dat_matches option" where
  "open_example f =
     (if f = ''A'' then Some dat_A else if f = ''B'' then Some dat_B
      else if f = ''C'' then Some dat_C else None)"

definition cfg :: "(string \<times> string) list \<Rightarrow> inp_matches" where
  "cfg ds = \<lparr>frame_matches = [(''F0'', ''0.0 0.0 0.0'')], directive_matches = ds\<rparr>"





text \<open>
  A Nemoh file with the symmetry flag set, four vertices and one face, the same file
  with the flag 0, and a WAMIT file that declares two faces.
\<close>

definition example_MAR :: "string list" where
  "example_MAR =
     [''2 1'', ''1 0.0 0.0 0.0'', ''2 1.0 0.0 0.0'', ''3 1.0 1.0 0.0'', ''4 0.0 1.0 0.0'',
      ''0 0.0 0.0 0.0'', ''1 2 3 4'', ''0 0 0 0'']"

definition example_MAR_plain :: "string list" where
  "example_MAR_plain =
     [''2 0'', ''1 0.0 0.0 0.0'', ''2 1.0 0.0 0.0'', ''3 1.0 1.0 0.0'', ''4 0.0 1.0 0.0'',
      ''0 0.0 0.0 0.0'', ''1 2 3 4'', ''0 0 0 0'']"


text \<open>A natural-list file with three vertices and one triangle.\<close>

definition example_NAT :: "string list" where
  "example_NAT =
     [''0 0'', ''3 1'', ''0.0 0.0 0.0'', ''1.0 0.0 0.0'', ''0.0 1.0 0.0'', ''1 2 3 1'']"



section \<open>Properties\<close>

subsection \<open>Auxiliary facts\<close>

lemma andthen_Inr [simp]: "andthen (Inr x) f = f x"
  by (simp add: andthen_def)

lemma andthen_Inl [simp]: "andthen (Inl e) f = Inl e"
  by (simp add: andthen_def)

lemma dict_get_dict_set:
  "dict_get (dict_set k v d) k' = (if k' = k then Some v else dict_get d k')"
  by (induction d) (auto simp: dict_get_def)

lemma andthen_eq_Inr:
  "andthen m f = Inr y \<longleftrightarrow> (\<exists>x. m = Inr x \<and> f x = Inr y)"
  by (cases m) auto

lemma replay_append:
  "replay frames idx (xs @ ys) s = andthen (replay frames idx xs s) (replay frames idx ys)"
  by (induction xs arbitrary: s) (auto simp: andthen_def split: sum.splits)

lemma replay_ELEMENT_unbound:
  "increment s = None \<Longrightarrow> replay_ELEMENT file s \<noteq> Inr s'"
  by (auto simp: replay_ELEMENT_def andthen_eq_Inr Let_def split: option.splits)

lemma replay_ELEMENT_init:
  "dict_get files file = Some mf \<Longrightarrow> nb_elem_sections_used mf = 0 \<Longrightarrow>
   replay_ELEMENT file (init_state files) =
     (if ELEM_SECTIONS mf = [] then Inl IndexError
      else case np_asarray_int (hd (ELEM_SECTIONS mf)) of
             Inl e \<Rightarrow> Inl e
           | Inr a \<Rightarrow> Inl (UnboundLocalError ''increment''))"
  by (auto simp: replay_ELEMENT_def init_state_def Let_def hd_conv_nth split: sum.splits)

lemma read_DAT_used:
  "read_DAT flt file dat calls = Inr (mf, i) \<Longrightarrow>
     nb_elem_sections_used mf = 0 \<and> nb_elem_sections mf = length (ELEM_SECTIONS mf)"
  by (auto simp: read_DAT_def andthen_eq_Inr split: option.splits if_splits)

lemma read_files_used:
  "read_files flt open_DAT calls acc idx = Inr (files, idx') \<Longrightarrow>
   (\<And>f mf. dict_get acc f = Some mf \<Longrightarrow>
       nb_elem_sections_used mf = 0 \<and> nb_elem_sections mf = length (ELEM_SECTIONS mf)) \<Longrightarrow>
   dict_get files f = Some mf \<Longrightarrow>
     nb_elem_sections_used mf = 0 \<and> nb_elem_sections mf = length (ELEM_SECTIONS mf)"
proof (induction calls arbitrary: acc idx)
  case Nil
  then show ?case by simp
next
  case (Cons c calls)
  obtain fname cs where c: "c = (fname, cs)" by (cases c)
  from Cons.prems(1) obtain mf0 i0 where
    r: "read_DAT flt fname (open_DAT fname) cs = Inr (mf0, i0)" and
    rest: "read_files flt open_DAT calls (dict_set fname mf0 acc) (Some i0) = Inr (files, idx')"
    by (auto simp: c andthen_eq_Inr)
  show ?case
  proof (rule Cons.IH [OF rest _ Cons.prems(3)])
    fix g mg
    assume "dict_get (dict_set fname mf0 acc) g = Some mg"
    then show "nb_elem_sections_used mg = 0 \<and> nb_elem_sections mg = length (ELEM_SECTIONS mg)"
      using read_DAT_used [OF r] Cons.prems(2) [of g mg]
      by (auto simp: dict_get_dict_set split: if_splits)
  qed
qed

lemma finish_init: "finish (init_state files) name = Inl (UnboundLocalError ''vertices'')"
  by (simp add: finish_def init_state_def)

lemma load_INP_unfold:
  "parse_frames flt (frame_matches text) [] = Inr frames \<Longrightarrow>
   parse_layout (directive_matches text) [] [] = Inr (layout, calls) \<Longrightarrow>
   read_files flt open_DAT calls [] None = Inr (files, idx) \<Longrightarrow>
   load_INP flt text open_DAT name =
     andthen (replay frames idx layout (init_state files)) (\<lambda>s. finish s name)"
  by (simp add: load_INP_def)

lemma load_INP_Inr:
  "load_INP flt text open_DAT name = Inr m \<Longrightarrow>
   \<exists>frames layout calls files idx s.
     parse_frames flt (frame_matches text) [] = Inr frames \<and>
     parse_layout (directive_matches text) [] [] = Inr (layout, calls) \<and>
     read_files flt open_DAT calls [] None = Inr (files, idx) \<and>
     replay frames idx layout (init_state files) = Inr s \<and> finish s name = Inr m"
  by (auto simp: load_INP_def andthen_eq_Inr)





lemma np_asarray_int_Inr: "np_asarray_int rows = Inr a \<Longrightarrow> a = rows"
  by (auto simp: np_asarray_int_def np_rect_def split: if_splits)

lemma np_concatenate_Inr: "np_concatenate a b = Inr c \<Longrightarrow> c = a @ b"
  by (auto simp: np_concatenate_def split: if_splits)








subsection \<open>The replay of the directives of \<open>load_INP\<close>\<close>

text \<open>
  A NODE directive that does not increment executes \<open>vertices[idx, :] = nodes\<close>, where
  \<open>idx\<close> is the value left in the loop variable of line 288: one row index, not the
  positions of the nodes.  When the data file holds more than one node the assignment
  cannot succeed.
\<close>

lemma np_setrow_Inr_rows:
  "np_setrow a i b = Inr c \<Longrightarrow> length b \<le> 1"
  by (cases "np_index (length a) i") (auto simp: np_setrow_def split: if_splits)

lemma np_iadd_vec_length:
  "np_iadd_vec a v = Inr b \<Longrightarrow> length b = length a"
  by (auto simp: np_iadd_vec_def split: if_splits)

lemma np_rect_Inr: "np_rect rows = Inr a \<Longrightarrow> a = rows"
  by (auto simp: np_rect_def split: if_splits)

lemma replay_NODE_overwrite_many_rows:
  assumes mf: "dict_get (mesh_files s) fname = Some mf"
    and many: "length (NODE_SECTION mf) > 1"
    and later: "nb_nodes s \<noteq> 0"
    and no: "dict_get field ''INCREMENT'' = Some ''NO''"
  shows "replay_NODE frames idx field fname s \<noteq> Inr s'"
proof
  assume r: "replay_NODE frames idx field fname s = Inr s'"
  obtain nodes0 where n0: "np_rect (NODE_SECTION mf) = Inr nodes0"
    using r mf by (cases "np_rect (NODE_SECTION mf)") (simp_all add: replay_NODE_def)
  obtain fr where fr: "dict_get field ''FRAME'' = Some fr"
    using r mf n0 by (cases "dict_get field ''FRAME''") (simp_all add: replay_NODE_def)
  obtain vec where vec: "dict_get frames fr = Some vec"
    using r mf n0 fr by (cases "dict_get frames fr") (simp_all add: replay_NODE_def)
  obtain nodes where nodes: "np_iadd_vec nodes0 vec = Inr nodes"
    using r mf n0 fr vec by (cases "np_iadd_vec nodes0 vec") (simp_all add: replay_NODE_def)
  have len: "length nodes > 1"
    using np_iadd_vec_length [OF nodes] np_rect_Inr [OF n0] many by simp
  obtain v where v: "vertices s = Some v"
    using r mf n0 fr vec nodes later no
    by (cases "vertices s") (simp_all add: replay_NODE_def)
  obtain i where i: "idx = Some i"
    using r mf n0 fr vec nodes later no v by (cases idx) (simp_all add: replay_NODE_def)
  obtain v' where "np_setrow v i nodes = Inr v'"
    using r mf n0 fr vec nodes later no v i
    by (cases "np_setrow v i nodes") (simp_all add: replay_NODE_def)
  from np_setrow_Inr_rows [OF this] len show False by simp
qed

text \<open>
  Claim C1.  In \<open>load_INP\<close> a later NODE directive with the increment flag off is said
  to overwrite the vertex table at the positions recorded in the data file's own node
  ordering.  On the configuration \<open>NODE A\<close>, \<open>NODE A\<close>, \<open>ELEMENT A\<close>, where the data file
  \<open>A\<close> holds the nodes 1 and 2, the code does not overwrite anything: the second
  directive indexes the two-row vertex table with the stale \<open>idx = 2\<close> and the call
  ends in \<open>IndexError\<close>.
\<close>

theorem load_INP_overwrite_raises:
  "load_INP example_float
     (cfg [(''NODE'', ''INPUT=A,FRAME=F0''), (''NODE'', ''INPUT=A,FRAME=F0''),
           (''ELEMENT'', ''INPUT=A'')])
     open_example None = Inl IndexError"
  by code_simp







text \<open>
  Claim C10 (amended).  \<open>load_INP\<close> returns a mesh only if the list of directives is
  not empty and its first directive is a NODE directive.  When the frames, the
  directives and the data files have been read without an error, an empty list of
  directives ends in \<open>UnboundLocalError\<close> for \<open>vertices\<close>; a list whose first
  directive is not a NODE directive ends in \<open>UnboundLocalError\<close> for \<open>increment\<close>
  when the data file of that directive has a first element section that converts to
  an integer array, in the error of that conversion when it does not convert, and in
  \<open>IndexError\<close> when the data file has no element section.
\<close>

theorem load_INP_leading_NODE:
  "(load_INP flt text open_DAT name = Inr m \<longrightarrow>
      (\<exists>layout calls. parse_layout (directive_matches text) [] [] = Inr (layout, calls) \<and>
         layout \<noteq> [] \<and> dict_get (hd layout) ''type'' = Some ''NODE''))
   \<and> (parse_frames flt (frame_matches text) [] = Inr frames \<and>
       parse_layout (directive_matches text) [] [] = Inr (layout, calls) \<and>
       read_files flt open_DAT calls [] None = Inr (files, idx) \<longrightarrow>
       (layout = [] \<longrightarrow> load_INP flt text open_DAT name = Inl (UnboundLocalError ''vertices'')) \<and>
       (\<forall>field rest ty file mf.
          layout = field # rest \<and> dict_get field ''type'' = Some ty \<and> ty \<noteq> ''NODE'' \<and>
          dict_get field ''INPUT'' = Some file \<and> dict_get files file = Some mf \<longrightarrow>
          load_INP flt text open_DAT name =
            (if ELEM_SECTIONS mf = [] then Inl IndexError
             else case np_asarray_int (hd (ELEM_SECTIONS mf)) of
                    Inl e \<Rightarrow> Inl e
                  | Inr a \<Rightarrow> Inl (UnboundLocalError ''increment''))))"
proof (intro conjI impI allI)
  assume "load_INP flt text open_DAT name = Inr m"
  then obtain fr lay cs fs i s where
    lay: "parse_layout (directive_matches text) [] [] = Inr (lay, cs)" and
    rd: "read_files flt open_DAT cs [] None = Inr (fs, i)" and
    rp: "replay fr i lay (init_state fs) = Inr s" and
    fin: "finish s name = Inr m"
    using load_INP_Inr by blast
  have ne: "lay \<noteq> []"
  proof
    assume "lay = []"
    with rp fin finish_init [of fs name] show False by auto
  qed
  then obtain field rest where l: "lay = field # rest" by (cases lay) auto
  from rp obtain s1 where st: "replay_field fr i field (init_state fs) = Inr s1"
    by (auto simp: l andthen_eq_Inr)
  have "dict_get field ''type'' = Some ''NODE''"
  proof (rule ccontr)
    assume n: "dict_get field ''type'' \<noteq> Some ''NODE''"
    from st obtain fname where "replay_ELEMENT fname (init_state fs) = Inr s1"
      using n by (auto simp: replay_field_def split: option.splits if_splits)
    then show False using replay_ELEMENT_unbound [of "init_state fs" fname s1]
      by (simp add: init_state_def)
  qed
  with lay ne l
  show "\<exists>layout calls. parse_layout (directive_matches text) [] [] = Inr (layout, calls) \<and>
         layout \<noteq> [] \<and> dict_get (hd layout) ''type'' = Some ''NODE''"
    by auto
next
  assume a: "parse_frames flt (frame_matches text) [] = Inr frames \<and>
       parse_layout (directive_matches text) [] [] = Inr (layout, calls) \<and>
       read_files flt open_DAT calls [] None = Inr (files, idx)" and "layout = []"
  then show "load_INP flt text open_DAT name = Inl (UnboundLocalError ''vertices'')"
    by (simp add: load_INP_unfold finish_init)
next
  fix field rest ty fname mf
  assume a: "parse_frames flt (frame_matches text) [] = Inr frames \<and>
       parse_layout (directive_matches text) [] [] = Inr (layout, calls) \<and>
       read_files flt open_DAT calls [] None = Inr (files, idx)"
    and b: "layout = field # rest \<and> dict_get field ''type'' = Some ty \<and> ty \<noteq> ''NODE'' \<and>
          dict_get field ''INPUT'' = Some fname \<and> dict_get files fname = Some mf"
  from a b have u: "nb_elem_sections_used mf = 0"
    using read_files_used [of flt open_DAT calls "[]" None files idx fname mf]
    by (simp add: dict_get_def)
  have "replay_field frames idx field (init_state files) = replay_ELEMENT fname (init_state files)"
    using b by (simp add: replay_field_def)
  then show "load_INP flt text open_DAT name =
            (if ELEM_SECTIONS mf = [] then Inl IndexError
             else case np_asarray_int (hd (ELEM_SECTIONS mf)) of
                    Inl e \<Rightarrow> Inl e
                  | Inr a \<Rightarrow> Inl (UnboundLocalError ''increment''))"
    using a b u replay_ELEMENT_init [of files fname mf]
    by (auto simp: load_INP_unfold split: sum.splits)
qed

theorem load_INP_leading_NODE_witness:
  "parse_layout (directive_matches (cfg [(''ELEMENT'', ''INPUT=A'')])) [] [] =
     Inr ([[(''type'', ''ELEMENT''), (''INPUT'', ''A'')]], [(''A'', (0, 1))]) \<and>
   load_INP example_float (cfg [(''ELEMENT'', ''INPUT=A'')]) open_example None =
     Inl (UnboundLocalError ''increment'')"
proof -
  let ?c = "cfg [(''ELEMENT'', ''INPUT=A'')]"
  let ?mf = "\<lparr>NODE_CALL_INP = 0, ELEMENT_CALL_INP = 1,
              NODE_SECTION = [[0, 0, 0], [1, 0, 0::real]],
              ELEM_SECTIONS = [[[1, 2, 2, 1]], [[2, 1, 1, 2]]],
              nb_elem_sections = 2, nb_elem_sections_used = 0\<rparr>"
  have f: "parse_frames example_float (frame_matches ?c) [] = Inr [(''F0'', [0, 0, 0])]"
    by code_simp
  have l: "parse_layout (directive_matches ?c) [] [] =
     Inr ([[(''type'', ''ELEMENT''), (''INPUT'', ''A'')]], [(''A'', (0, 1))])"
    by code_simp
  have r: "read_files example_float open_example [(''A'', (0, 1))] [] None =
     Inr ([(''A'', ?mf)], Some 2)"
    by code_simp
  have g: "dict_get [(''A'', ?mf)] ''A'' = Some ?mf"
    by (simp add: dict_get_def)
  have t: "dict_get [(''type'', ''ELEMENT''), (''INPUT'', ''A'')] ''type'' = Some ''ELEMENT''"
          "dict_get [(''type'', ''ELEMENT''), (''INPUT'', ''A'')] ''INPUT'' = Some ''A''"
    by (simp_all add: dict_get_def)
  have a: "np_asarray_int [[1, 2, 2, 1]] = Inr [[1, 2, 2, 1]]"
    by code_simp
  from load_INP_leading_NODE [of example_float ?c open_example None undefined
      "[(''F0'', [0, 0, 0])]" "[[(''type'', ''ELEMENT''), (''INPUT'', ''A'')]]"
      "[(''A'', (0, 1))]" "[(''A'', ?mf)]" "Some 2"] f l r g t a
  have "load_INP example_float ?c open_example None = Inl (UnboundLocalError ''increment'')"
    by simp
  with l show ?thesis by simp
qed

text \<open>
  Claim C10 as stated fails: the configuration whose only directive is \<open>ELEMENT B\<close>,
  where the data file \<open>B\<close> has no element section, begins with an element directive
  and ends in \<open>IndexError\<close>, not in an error for an uninitialised variable.
\<close>

theorem load_INP_ELEMENT_first_IndexError:
  "map fst (directive_matches (cfg [(''ELEMENT'', ''INPUT=B'')])) = [''ELEMENT''] \<and>
   load_INP example_float (cfg [(''ELEMENT'', ''INPUT=B'')]) open_example None = Inl IndexError"
  by code_simp

subsection \<open>The dispatcher\<close>

text \<open>
  Claim C7.  For a path that is not a file, \<open>load_mesh\<close> fails with the
  file-not-found error, whatever the format argument and the registry say; for an
  existing file whose keyword (given, or taken from the extension) is not in the
  registry, it fails with the error whose message names that keyword.
\<close>

theorem load_mesh_errors:
  "(\<not> isfile filename \<longrightarrow>
      load_mesh isfile run filename file_format name =
        Inl (IOError (''file '' @ filename @ '' not found'')))
   \<and> (isfile filename \<and>
        kw = (case file_format of
                None \<Rightarrow> strip_chars (\<lambda>c. c = CHR ''.'') (splitext_ext filename)
              | Some f \<Rightarrow> f) \<and>
        dict_get extension_dict kw = None \<longrightarrow>
      load_mesh isfile run filename file_format name =
        Inl (IOError (''Extension '' @ [CHR 0x22] @ ''.'' @ kw @ [CHR 0x22]
                        @ '' is not known'')))"
  by (auto simp: load_mesh_def check_file_def Let_def)

theorem load_mesh_errors_witness:
  "load_mesh (\<lambda>p. p = ''x.foo'') (\<lambda>l f n. Inr l) ''/nonexistent'' (Some ''gdf'') None =
     Inl (IOError ''file /nonexistent not found'') \<and>
   dict_get extension_dict ''foo'' = None \<and>
   load_mesh (\<lambda>p. p = ''x.foo'') (\<lambda>l f n. Inr l) ''x.foo'' None None =
     Inl (IOError (''Extension '' @ [CHR 0x22] @ ''.foo'' @ [CHR 0x22] @ '' is not known''))"
proof -
  have a: "\<not> (\<lambda>p. p = ''x.foo'') ''/nonexistent''" by simp
  have b: "(\<lambda>p. p = ''x.foo'') ''x.foo''" by simp
  have c: "''foo'' = (case None of
                None \<Rightarrow> strip_chars (\<lambda>c. c = CHR ''.'') (splitext_ext ''x.foo'')
              | Some f \<Rightarrow> f)"
    by code_simp
  have d: "dict_get extension_dict ''foo'' = None" by code_simp
  from load_mesh_errors [where isfile = "\<lambda>p. p = ''x.foo''" and filename = "''/nonexistent''"
      and run = "\<lambda>l f n. Inr l" and file_format = "Some ''gdf''" and name = None,
      THEN conjunct1] a
  have 1: "load_mesh (\<lambda>p. p = ''x.foo'') (\<lambda>l f n. Inr l) ''/nonexistent'' (Some ''gdf'') None =
     Inl (IOError ''file /nonexistent not found'')"
    by simp
  from load_mesh_errors [where isfile = "\<lambda>p. p = ''x.foo''" and filename = "''x.foo''"
      and run = "\<lambda>l f n. Inr l" and file_format = None and name = None and kw = "''foo''",
      THEN conjunct2] b c d
  have 2: "load_mesh (\<lambda>p. p = ''x.foo'') (\<lambda>l f n. Inr l) ''x.foo'' None None =
     Inl (IOError (''Extension '' @ [CHR 0x22] @ ''.foo'' @ [CHR 0x22] @ '' is not known''))"
    by simp
  from 1 2 d show ?thesis by simp
qed

text \<open>
  Claim C8.  When the explicit keyword and the keyword inferred from the extension
  select the same loader, the two calls of \<open>load_mesh\<close> are the same call of that
  loader and return the same result; \<open>wamit\<close> and \<open>gdf\<close> select \<open>load_GDF\<close>, and
  \<open>mar\<close>, \<open>dat\<close> and \<open>nemoh\<close> select \<open>load_MAR\<close>.
\<close>

theorem load_mesh_alias:
  "(dict_get extension_dict explicit = Some l \<and>
    dict_get extension_dict (strip_chars (\<lambda>c. c = CHR ''.'') (splitext_ext filename)) = Some l
      \<longrightarrow>
      load_mesh isfile run filename (Some explicit) name =
        load_mesh isfile run filename None name \<and>
      (isfile filename \<longrightarrow> load_mesh isfile run filename None name = run l filename name))
   \<and> dict_get extension_dict ''wamit'' = Some GDF \<and> dict_get extension_dict ''gdf'' = Some GDF
   \<and> dict_get extension_dict ''mar'' = Some MAR \<and> dict_get extension_dict ''dat'' = Some MAR
   \<and> dict_get extension_dict ''nemoh'' = Some MAR"
  by (simp add: load_mesh_def check_file_def Let_def andthen_def dict_get_def extension_dict_def)

theorem load_mesh_alias_witness:
  "dict_get extension_dict (strip_chars (\<lambda>c. c = CHR ''.'') (splitext_ext ''mesh.gdf'')) = Some GDF \<and>
   load_mesh (\<lambda>p. p = ''mesh.gdf'') (\<lambda>l f n. Inr (l, f, n)) ''mesh.gdf'' (Some ''wamit'') None =
     load_mesh (\<lambda>p. p = ''mesh.gdf'') (\<lambda>l f n. Inr (l, f, n)) ''mesh.gdf'' None None \<and>
   load_mesh (\<lambda>p. p = ''mesh.gdf'') (\<lambda>l f n. Inr (l, f, n)) ''mesh.gdf'' None None =
     Inr (GDF, ''mesh.gdf'', None)"
proof -
  have a: "dict_get extension_dict ''wamit'' = Some GDF" by code_simp
  have b: "dict_get extension_dict
             (strip_chars (\<lambda>c. c = CHR ''.'') (splitext_ext ''mesh.gdf'')) = Some GDF"
    by code_simp
  from load_mesh_alias [where explicit = "''wamit''" and l = GDF and filename = "''mesh.gdf''"
      and isfile = "\<lambda>p. p = ''mesh.gdf''" and run = "\<lambda>l f n. Inr (l, f, n)"
      and name = None, THEN conjunct1] a b
  show ?thesis by simp
qed

subsection \<open>The loaders that read line by line\<close>


lemma map_err_append:
  "map_err f xs = Inr as \<Longrightarrow> map_err f ys = Inr bs \<Longrightarrow> map_err f (xs @ ys) = Inr (as @ bs)"
  by (induction xs arbitrary: as) (auto split: sum.splits)

lemma map_err_length: "map_err f xs = Inr ys \<Longrightarrow> length ys = length xs"
  by (induction xs arbitrary: ys) (auto split: sum.splits)


lemma readline_simps [simp]:
  "readline [] = ([], [])" "readline (l # ls) = (l, ls)"
  by (simp_all add: readline_def)

lemma gdf_row_empty: "gdf_row flt [] = Inl ValueError"
  by (simp add: gdf_row_def py_split_def)

lemma gdf_row_length: "gdf_row flt l = Inr r \<Longrightarrow> length r = 3"
  by (auto simp: gdf_row_def andthen_eq_Inr split: if_splits)

lemma read_GDF_face_Inr:
  "read_GDF_face flt k iv ls = Inr (rows, ids, iv', rest) \<Longrightarrow>
     k \<le> length ls \<and> map_err (gdf_row flt) (take k ls) = Inr rows \<and> rest = drop k ls \<and>
     ids = map (\<lambda>j. iv + 1 + int j) [0..<k] \<and> iv' = iv + int k"
proof (induction k arbitrary: iv ls rows ids)
  case 0
  then show ?case by simp
next
  case (Suc k)
  from Suc.prems obtain row rows' ids' where
    row: "gdf_row flt (fst (readline ls)) = Inr row" and
    rec: "read_GDF_face flt k (iv + 1) (snd (readline ls)) = Inr (rows', ids', iv', rest)" and
    eq: "rows = row # rows'" "ids = (iv + 1) # ids'"
    by (auto simp: andthen_eq_Inr)
  from row obtain l ls' where ls: "ls = l # ls'"
    by (cases ls) (auto simp: readline_def gdf_row_empty)
  note ih = Suc.IH [OF rec [unfolded ls readline_def, simplified]]
  have "map (\<lambda>j. iv + 1 + int j) [0..<Suc k] =
        (iv + 1) # map (\<lambda>j. iv + 1 + 1 + int j) [0..<k]"
    by (simp add: upt_conv_Cons map_Suc_upt [symmetric] del: upt_Suc)
  with ih row eq ls show ?case
    by (simp add: readline_def)
qed

lemma read_GDF_faces_Inr:
  "read_GDF_faces flt n iv ls = Inr (vs, fs) \<Longrightarrow>
     4 * n \<le> length ls \<and> map_err (gdf_row flt) (take (4 * n) ls) = Inr vs \<and>
     fs = map (\<lambda>c. map (\<lambda>j. iv + 1 + 4 * int c + int j) [0..<4]) [0..<n]"
proof (induction n arbitrary: iv ls vs fs)
  case 0
  then show ?case by simp
next
  case (Suc n)
  from Suc.prems obtain rows ids iv' rest vs' fs' where
    face: "read_GDF_face flt 4 iv ls = Inr (rows, ids, iv', rest)" and
    rec: "read_GDF_faces flt n iv' rest = Inr (vs', fs')" and
    eq: "vs = rows @ vs'" "fs = ids # fs'"
    by (auto simp: andthen_eq_Inr)
  from read_GDF_face_Inr [OF face] have
    f4: "4 \<le> length ls" "map_err (gdf_row flt) (take 4 ls) = Inr rows" "rest = drop 4 ls"
      "ids = map (\<lambda>j. iv + 1 + int j) [0..<4]" "iv' = iv + 4"
    by simp_all
  from Suc.IH [OF rec] have
    ih: "4 * n \<le> length rest" "map_err (gdf_row flt) (take (4 * n) rest) = Inr vs'"
      "fs' = map (\<lambda>c. map (\<lambda>j. iv' + 1 + 4 * int c + int j) [0..<4]) [0..<n]"
    by simp_all
  have t: "take (4 * Suc n) ls = take 4 ls @ take (4 * n) (drop 4 ls)"
    by (simp add: take_add [symmetric] add.commute)
  have m: "map (\<lambda>c. map (\<lambda>j. iv + 1 + 4 * int c + int j) [0..<4]) [0..<Suc n] =
     map (\<lambda>j. iv + 1 + int j) [0..<4] #
     map (\<lambda>c. map (\<lambda>j. iv + 4 + 1 + 4 * int c + int j) [0..<4]) [0..<n]"
    by (simp add: upt_conv_Cons [of 0 "Suc n"] map_Suc_upt [symmetric] algebra_simps del: upt_Suc)
  from f4 ih eq show ?case
    unfolding t m by (simp add: map_err_append)
qed

lemma two_tokens_Inr: "two_tokens l = Inr p \<longleftrightarrow> (\<exists>a b r. py_split l = a # b # r \<and> p = (a, b))"
  by (auto simp: two_tokens_def split: list.splits)

lemma read_MAR_vertices_Inr:
  "read_MAR_vertices flt ls = Inr (rows, rest) \<Longrightarrow>
     length rows = length (takeWhile (\<lambda>l. \<not> is_sentinel l) ls) \<and>
     length rows < length ls \<and> is_sentinel (ls ! length rows) \<and>
     rest = drop (Suc (length rows)) ls"
proof (induction ls arbitrary: rows)
  case Nil
  then show ?case by simp
next
  case (Cons l ls)
  show ?case
  proof (cases "py_split l")
    case Nil
    with Cons.prems show ?thesis by simp
  next
    case (Cons t ts)
    show ?thesis
    proof (cases "t = ''0''")
      case True
      then have "is_sentinel l" using Cons by (simp add: is_sentinel_def)
      moreover from True Cons.prems Cons have "rows = []" "rest = ls" by simp_all
      ultimately show ?thesis by simp
    next
      case False
      then have ns: "\<not> is_sentinel l" using Cons by (simp add: is_sentinel_def)
      from False Cons.prems Cons obtain row rows' where
        "read_MAR_vertices flt ls = Inr (rows', rest)" "rows = row # rows'"
        by (auto simp: andthen_eq_Inr)
      with Cons.IH [of rows'] ns show ?thesis by auto
    qed
  qed
qed

lemma load_GDF_Inr:
  assumes ok: "load_GDF flt ifile name = Inr m"
  shows "\<exists>nf. 4 + 4 * nf \<le> length ifile \<and> py_split (ifile ! 3) \<noteq> [] \<and>
         py_int (hd (py_split (ifile ! 3))) = Inr (int nf) \<and>
         length (mesh_vertices m) = 4 * nf \<and>
         map_err (gdf_row flt) (take (4 * nf) (drop 4 ifile)) = Inr (mesh_vertices m) \<and>
         mesh_faces m =
           map (\<lambda>k. [4 * int k, 4 * int k + 1, 4 * int k + 2, 4 * int k + 3]) [0..<nf] \<and>
         mesh_name m = name"
proof -
  let ?ls1 = "snd (readline ifile)"
  let ?ls2 = "snd (readline ?ls1)"
  let ?ls3 = "snd (readline ?ls2)"
  obtain p1 where p1: "two_tokens (fst (readline ?ls1)) = Inr p1"
    using ok by (cases "two_tokens (fst (readline ?ls1))") (simp_all add: load_GDF_def Let_def)
  obtain p2 where p2: "two_tokens (fst (readline ?ls2)) = Inr p2"
    using ok p1 by (cases "two_tokens (fst (readline ?ls2))")
      (simp_all add: load_GDF_def Let_def split: prod.splits)
  obtain t ts where t: "py_split (fst (readline ?ls3)) = t # ts"
    using ok p1 p2 by (cases "py_split (fst (readline ?ls3))")
      (simp_all add: load_GDF_def Let_def split: prod.splits)
  obtain nf where nf: "py_int t = Inr nf"
    using ok p1 p2 t by (cases "py_int t")
      (simp_all add: load_GDF_def Let_def split: prod.splits)
  have pos: "0 \<le> nf"
    using ok p1 p2 t nf by (simp add: load_GDF_def Let_def split: prod.splits if_splits)
  obtain vs fs where rd: "read_GDF_faces flt (nat nf) (- 1) (snd (readline ?ls3)) = Inr (vs, fs)"
    and m: "m = Mesh vs fs name"
    using ok p1 p2 t nf pos
    by (cases "read_GDF_faces flt (nat nf) (- 1) (snd (readline ?ls3))")
       (auto simp: load_GDF_def Let_def split: prod.splits)
  have len4: "length ifile > 3"
  proof (rule ccontr)
    assume "\<not> length ifile > 3"
    then have "fst (readline ?ls3) = []"
      by (cases ifile; cases "tl ifile"; cases "tl (tl ifile)"; cases "tl (tl (tl ifile))")
         (auto simp: readline_def)
    with t show False by (simp add: py_split_def)
  qed
  then have l3: "fst (readline ?ls3) = ifile ! 3" and d4: "snd (readline ?ls3) = drop 4 ifile"
    by (cases ifile; cases "tl ifile"; cases "tl (tl ifile)"; cases "tl (tl (tl ifile))";
        auto simp: readline_def)+
  from read_GDF_faces_Inr [OF rd] have
    r: "4 * nat nf \<le> length (drop 4 ifile)"
       "map_err (gdf_row flt) (take (4 * nat nf) (drop 4 ifile)) = Inr vs"
       "fs = map (\<lambda>c. map (\<lambda>j. - 1 + 1 + 4 * int c + int j) [0..<4]) [0..<nat nf]"
    by (simp_all add: d4)
  have fs: "fs = map (\<lambda>k. [4 * int k, 4 * int k + 1, 4 * int k + 2, 4 * int k + 3]) [0..<nat nf]"
    unfolding r(3) by (simp add: upt_conv_Cons)
  have lv: "length vs = 4 * nat nf"
    using map_err_length [OF r(2)] r(1) by simp
  show ?thesis
    using r(1,2) fs lv t nf pos m l3 len4
    by (intro exI [of _ "nat nf"]) auto
qed



lemma load_MAR_returned:
  "load_MAR flt ifile name = Inr r \<longrightarrow>
     (\<exists>header rest u symmetric_mesh flag.
        ifile = header # rest \<and> py_split header = [u, symmetric_mesh] \<and>
        py_int symmetric_mesh = Inr flag \<and>
        (flag = 1 \<longrightarrow>
           (\<exists>half nm. r = ReflectionSymmetricMesh half xOz_Plane nm \<and>
              length (mesh_vertices half) =
                length (takeWhile (\<lambda>l. \<not> is_sentinel l) rest))) \<and>
        (flag \<noteq> 1 \<longrightarrow>
           (\<exists>m. r = Plain m \<and>
              length (mesh_vertices m) =
                length (takeWhile (\<lambda>l. \<not> is_sentinel l) rest))))"
proof
  assume ok: "load_MAR flt ifile name = Inr r"
  obtain u sym where hd: "py_split (fst (readline ifile)) = [u, sym]"
    using ok by (auto simp: load_MAR_def split: list.splits)
  then obtain header rest where ifile: "ifile = header # rest"
    by (cases ifile) (auto simp: py_split_def)
  obtain vs ls1 where vs: "read_MAR_vertices flt rest = Inr (vs, ls1)"
    using ok hd ifile by (cases "read_MAR_vertices flt rest") (auto simp: load_MAR_def)
  obtain vertices where v: "np_rect vs = Inr vertices"
    using ok hd ifile vs by (cases "np_rect vs") (auto simp: load_MAR_def)
  obtain fs ls2 where fs: "read_MAR_faces ls1 = Inr (fs, ls2)"
    using ok hd ifile vs v by (cases "read_MAR_faces ls1") (auto simp: load_MAR_def)
  obtain faces where f: "np_asarray_int fs = Inr faces"
    using ok hd ifile vs v fs by (cases "np_asarray_int fs") (auto simp: load_MAR_def)
  obtain flag where flag: "py_int sym = Inr flag"
    using ok hd ifile vs v fs f by (cases "py_int sym") (auto simp: load_MAR_def)
  have n: "length vertices = length (takeWhile (\<lambda>l. \<not> is_sentinel l) rest)"
    using read_MAR_vertices_Inr [OF vs] np_rect_Inr [OF v] by simp
  from ok hd ifile vs v fs f flag n
  have "(flag = 1 \<longrightarrow>
           (\<exists>half nm. r = ReflectionSymmetricMesh half xOz_Plane nm \<and>
              length (mesh_vertices half) =
                length (takeWhile (\<lambda>l. \<not> is_sentinel l) rest))) \<and>
        (flag \<noteq> 1 \<longrightarrow>
           (\<exists>m. r = Plain m \<and>
              length (mesh_vertices m) =
                length (takeWhile (\<lambda>l. \<not> is_sentinel l) rest)))"
    by (cases name) (auto simp: load_MAR_def)
  with hd ifile flag show "\<exists>header rest u symmetric_mesh flag.
        ifile = header # rest \<and> py_split header = [u, symmetric_mesh] \<and>
        py_int symmetric_mesh = Inr flag \<and>
        (flag = 1 \<longrightarrow>
           (\<exists>half nm. r = ReflectionSymmetricMesh half xOz_Plane nm \<and>
              length (mesh_vertices half) =
                length (takeWhile (\<lambda>l. \<not> is_sentinel l) rest))) \<and>
        (flag \<noteq> 1 \<longrightarrow>
           (\<exists>m. r = Plain m \<and>
              length (mesh_vertices m) =
                length (takeWhile (\<lambda>l. \<not> is_sentinel l) rest)))"
    by auto
qed

lemma load_MAR_result:
  assumes h: "py_split header = [u, symmetric_mesh]"
    and f: "py_int symmetric_mesh = Inr flag"
    and v: "read_MAR_vertices flt rest = Inr (vs, lsv)"
    and r: "np_rect vs = Inr vtab"
    and e: "read_MAR_faces lsv = Inr (fs, ls2)"
    and a: "np_asarray_int fs = Inr ftab"
  shows "load_MAR flt (header # rest) name =
     Inr (if flag = 1
          then ReflectionSymmetricMesh
                 (Mesh vtab (np_add_scalar ftab (- 1))
                    (map_option (\<lambda>n. ''half_of_'' @ n) name))
                 xOz_Plane name
          else Plain (Mesh vtab (np_add_scalar ftab (- 1)) name))"
  using assms by (cases name) (simp_all add: load_MAR_def)

lemma load_MAR_vertex_count:
  assumes v: "read_MAR_vertices flt rest = Inr (vs, lsv)" and r: "np_rect vs = Inr vtab"
  shows "length vtab = length (takeWhile (\<lambda>l. \<not> is_sentinel l) rest)"
  using read_MAR_vertices_Inr [OF v] np_rect_Inr [OF r] by simp

text \<open>
  Claim C6.  When a Nemoh file is decoded and the second token of its header is the
  integer 1, the result is a half mesh wrapped in \<open>ReflectionSymmetricMesh\<close> with the
  plane \<open>xOz_Plane\<close>, and the half mesh has as many vertices as there are lines before
  the first sentinel line; when the flag is another integer the result is a plain
  mesh.  Both directions hold: what is returned has this form, and when the header has
  two tokens, the flag is an integer and the vertex and face lines are read into two
  arrays, the loader returns the wrapped half mesh for the flag 1 and the plain mesh for
  any other flag, holding these two arrays (the faces decreased by one).
\<close>

theorem load_MAR_symmetry:
  "(load_MAR flt ifile name = Inr r \<longrightarrow>
     (\<exists>header rest u symmetric_mesh flag.
        ifile = header # rest \<and> py_split header = [u, symmetric_mesh] \<and>
        py_int symmetric_mesh = Inr flag \<and>
        (flag = 1 \<longrightarrow>
           (\<exists>half nm. r = ReflectionSymmetricMesh half xOz_Plane nm \<and>
              length (mesh_vertices half) =
                length (takeWhile (\<lambda>l. \<not> is_sentinel l) rest))) \<and>
        (flag \<noteq> 1 \<longrightarrow>
           (\<exists>m. r = Plain m \<and>
              length (mesh_vertices m) =
                length (takeWhile (\<lambda>l. \<not> is_sentinel l) rest)))))
   \<and> (py_split header' = [u', symmetric_mesh'] \<and> py_int symmetric_mesh' = Inr flag' \<and>
        read_MAR_vertices flt rest' = Inr (vs, lsv) \<and> np_rect vs = Inr vtab \<and>
        read_MAR_faces lsv = Inr (fs, lsf) \<and> np_asarray_int fs = Inr ftab \<longrightarrow>
        length vtab = length (takeWhile (\<lambda>l. \<not> is_sentinel l) rest') \<and>
        load_MAR flt (header' # rest') name =
          Inr (if flag' = 1
               then ReflectionSymmetricMesh
                      (Mesh vtab (np_add_scalar ftab (- 1))
                         (map_option (\<lambda>n. ''half_of_'' @ n) name))
                      xOz_Plane name
               else Plain (Mesh vtab (np_add_scalar ftab (- 1)) name)))"
proof (intro conjI impI)
  assume "load_MAR flt ifile name = Inr r"
  then show "\<exists>header rest u symmetric_mesh flag.
        ifile = header # rest \<and> py_split header = [u, symmetric_mesh] \<and>
        py_int symmetric_mesh = Inr flag \<and>
        (flag = 1 \<longrightarrow>
           (\<exists>half nm. r = ReflectionSymmetricMesh half xOz_Plane nm \<and>
              length (mesh_vertices half) =
                length (takeWhile (\<lambda>l. \<not> is_sentinel l) rest))) \<and>
        (flag \<noteq> 1 \<longrightarrow>
           (\<exists>m. r = Plain m \<and>
              length (mesh_vertices m) =
                length (takeWhile (\<lambda>l. \<not> is_sentinel l) rest)))"
    by (rule load_MAR_returned [rule_format])
next
  assume a: "py_split header' = [u', symmetric_mesh'] \<and> py_int symmetric_mesh' = Inr flag' \<and>
        read_MAR_vertices flt rest' = Inr (vs, lsv) \<and> np_rect vs = Inr vtab \<and>
        read_MAR_faces lsv = Inr (fs, lsf) \<and> np_asarray_int fs = Inr ftab"
  then show "length vtab = length (takeWhile (\<lambda>l. \<not> is_sentinel l) rest')"
    using load_MAR_vertex_count [of flt rest' vs lsv vtab] by blast
  from a show "load_MAR flt (header' # rest') name =
          Inr (if flag' = 1
               then ReflectionSymmetricMesh
                      (Mesh vtab (np_add_scalar ftab (- 1))
                         (map_option (\<lambda>n. ''half_of_'' @ n) name))
                      xOz_Plane name
               else Plain (Mesh vtab (np_add_scalar ftab (- 1)) name))"
    using load_MAR_result [of header' u' symmetric_mesh' flag' flt rest' vs lsv vtab fs lsf ftab
        name]
    by blast
qed

theorem load_MAR_symmetry_witness:
  "py_split ''2 1'' = [''2'', ''1''] \<and> py_int ''1'' = Inr 1 \<and>
   py_split ''2 0'' = [''2'', ''0''] \<and> py_int ''0'' = Inr 0 \<and>
   read_MAR_vertices example_float (tl example_MAR) =
     Inr ([[0, 0, 0], [1, 0, 0], [1, 1, 0], [0, 1, 0]], [''1 2 3 4'', ''0 0 0 0'']) \<and>
   read_MAR_faces [''1 2 3 4'', ''0 0 0 0''] = Inr ([[1, 2, 3, 4]], []) \<and>
   load_MAR example_float example_MAR None =
     Inr (ReflectionSymmetricMesh
            (Mesh [[0, 0, 0], [1, 0, 0], [1, 1, 0], [0, 1, 0]] [[0, 1, 2, 3]] None)
            xOz_Plane None) \<and>
   load_MAR example_float example_MAR (Some ''hull'') =
     Inr (ReflectionSymmetricMesh
            (Mesh [[0, 0, 0], [1, 0, 0], [1, 1, 0], [0, 1, 0]] [[0, 1, 2, 3]]
               (Some ''half_of_hull''))
            xOz_Plane (Some ''hull'')) \<and>
   load_MAR example_float example_MAR_plain None =
     Inr (Plain (Mesh [[0, 0, 0], [1, 0, 0], [1, 1, 0], [0, 1, 0]] [[0, 1, 2, 3]] None)) \<and>
   length (takeWhile (\<lambda>l. \<not> is_sentinel l) (tl example_MAR)) = 4"
proof -
  let ?vs = "[[0, 0, 0], [1, 0, 0], [1, 1, 0], [0, 1, 0::real]]"
  let ?rest = "tl example_MAR"
  let ?r = "ReflectionSymmetricMesh (Mesh ?vs [[0, 1, 2, 3]] None) xOz_Plane None"
  have s1: "py_split ''2 1'' = [''2'', ''1'']" "py_int ''1'' = Inr 1"
    and s0: "py_split ''2 0'' = [''2'', ''0'']" "py_int ''0'' = Inr 0"
    by code_simp+
  have v: "read_MAR_vertices example_float ?rest = Inr (?vs, [''1 2 3 4'', ''0 0 0 0''])"
    by code_simp
  have r: "np_rect ?vs = Inr ?vs"
    by code_simp
  have f: "read_MAR_faces [''1 2 3 4'', ''0 0 0 0''] = Inr ([[1, 2, 3, 4]], [])"
    by code_simp
  have a: "np_asarray_int [[1, 2, 3, 4]] = Inr [[1, 2, 3, 4]]"
    by code_simp
  have m: "np_add_scalar [[1, 2, 3, 4]] (- 1) = [[0, 1, 2, 3]]"
    by code_simp
  have e1: "example_MAR = ''2 1'' # ?rest" and e0: "example_MAR_plain = ''2 0'' # ?rest"
    by (simp_all add: example_MAR_def example_MAR_plain_def)
  note th = load_MAR_symmetry [where flt = example_float and rest' = ?rest and vs = ?vs
      and lsv = "[''1 2 3 4'', ''0 0 0 0'']" and vtab = ?vs and fs = "[[1, 2, 3, 4]]"
      and lsf = "[]" and ftab = "[[1, 2, 3, 4]]" and u' = "''2''"]
  from th [where header' = "''2 1''" and symmetric_mesh' = "''1''" and flag' = 1
      and name = None, THEN conjunct2] s1 v r f a
  have c: "length ?vs = length (takeWhile (\<lambda>l. \<not> is_sentinel l) ?rest)"
    and l1: "load_MAR example_float example_MAR None = Inr ?r"
    by (simp_all add: e1 [symmetric] m)
  from th [where header' = "''2 1''" and symmetric_mesh' = "''1''" and flag' = 1
      and name = "Some ''hull''", THEN conjunct2] s1 v r f a
  have l2: "load_MAR example_float example_MAR (Some ''hull'') =
     Inr (ReflectionSymmetricMesh (Mesh ?vs [[0, 1, 2, 3]] (Some ''half_of_hull''))
            xOz_Plane (Some ''hull''))"
    by (simp add: e1 [symmetric] m)
  from th [where header' = "''2 0''" and symmetric_mesh' = "''0''" and flag' = 0
      and name = None, THEN conjunct2] s0 v r f a
  have l0: "load_MAR example_float example_MAR_plain None =
     Inr (Plain (Mesh ?vs [[0, 1, 2, 3]] None))"
    by (simp add: e0 [symmetric] m)
  from th [where ifile = example_MAR and name = None and r = ?r, THEN conjunct1, rule_format,
      OF l1]
  obtain header rest flag where
    x: "example_MAR = header # rest" and
    y: "flag = 1 \<longrightarrow> (\<exists>half nm. ?r = ReflectionSymmetricMesh half xOz_Plane nm \<and>
        length (mesh_vertices half) = length (takeWhile (\<lambda>l. \<not> is_sentinel l) rest))" and
    z: "flag \<noteq> 1 \<longrightarrow> (\<exists>m. ?r = Plain m \<and>
        length (mesh_vertices m) = length (takeWhile (\<lambda>l. \<not> is_sentinel l) rest))"
    by blast
  from z have "flag = 1" by auto
  with y have "length (takeWhile (\<lambda>l. \<not> is_sentinel l) rest) = 4" by auto
  with x have n: "length (takeWhile (\<lambda>l. \<not> is_sentinel l) ?rest) = 4"
    by (metis list.sel(3))
  from s1 s0 v f l1 l2 l0 n show ?thesis
    by (intro conjI)
qed

subsection \<open>What a loader has read when it returns a mesh\<close>

lemma read_rows_Inr:
  "read_rows conv n ls = Inr (rows, rest) \<Longrightarrow>
     map_err (\<lambda>l. map_err conv (py_split l)) (next_lines n ls) = Inr rows \<and> rest = drop n ls"
proof (induction n arbitrary: ls rows)
  case 0
  then show ?case by simp
next
  case (Suc n)
  from Suc.prems obtain row rows' where
    row: "map_err conv (py_split (fst (readline ls))) = Inr row" and
    rec: "read_rows conv n (snd (readline ls)) = Inr (rows', rest)" and
    eq: "rows = row # rows'"
    by (auto simp: andthen_eq_Inr)
  from Suc.IH [OF rec] row eq show ?case
    by (cases ls) simp_all
qed

lemma np_asarray_int_ok:
  "np_asarray_int fs = Inr a \<Longrightarrow> a = fs \<and> list_all (list_all int64_ok) fs"
  by (auto simp: np_asarray_int_def np_rect_def andthen_eq_Inr split: if_splits)

lemma np_add_scalar_minus_one:
  "np_add_scalar a (- 1) = map (map (\<lambda>v. wrap64 (v - 1))) a"
  by (simp add: np_add_scalar_def)


lemma load_NEM_Inr:
  assumes ok: "load_NEM flt ifile name = Inr m"
  shows "\<exists>nv nf vs src.
     py_int (fst (readline ifile)) = Inr nv \<and>
     py_int (fst (readline (snd (readline ifile)))) = Inr nf \<and>
     map_err (\<lambda>l. map_err flt (py_split l)) (next_lines (nat nv) (drop 2 ifile)) = Inr vs \<and>
     map_err (\<lambda>l. map_err py_int (py_split l))
       (next_lines (nat nf) (drop (2 + nat nv) ifile)) = Inr src \<and>
     list_all (list_all int64_ok) src \<and>
     m = Mesh vs (map (map (\<lambda>v. wrap64 (v - 1))) src) name"
proof -
  let ?ls = "snd (readline (snd (readline ifile)))"
  obtain nv where nv: "py_int (fst (readline ifile)) = Inr nv"
    using ok by (cases "py_int (fst (readline ifile))") (simp_all add: load_NEM_def)
  obtain nf where nf: "py_int (fst (readline (snd (readline ifile)))) = Inr nf"
    using ok nv by (cases "py_int (fst (readline (snd (readline ifile))))")
      (simp_all add: load_NEM_def)
  obtain vs ls2 where vs: "read_rows flt (nat nv) ?ls = Inr (vs, ls2)"
    using ok nv nf by (cases "read_rows flt (nat nv) ?ls") (auto simp: load_NEM_def)
  obtain vertices where v: "np_rect vs = Inr vertices"
    using ok nv nf vs by (cases "np_rect vs") (auto simp: load_NEM_def)
  obtain fs ls3 where fs: "read_rows py_int (nat nf) ls2 = Inr (fs, ls3)"
    using ok nv nf vs v by (cases "read_rows py_int (nat nf) ls2") (auto simp: load_NEM_def)
  obtain faces where f: "np_asarray_int fs = Inr faces"
    using ok nv nf vs v fs by (cases "np_asarray_int fs") (auto simp: load_NEM_def)
  have m: "m = Mesh vertices (np_add_scalar faces (- 1)) name"
    using ok nv nf vs v fs f by (auto simp: load_NEM_def)
  have ls: "?ls = drop 2 ifile"
    by (cases ifile; cases "tl ifile") (auto simp: readline_def)
  have ls2: "ls2 = drop (2 + nat nv) ifile"
    using read_rows_Inr [OF vs] ls by (simp add: add.commute)
  from read_rows_Inr [OF fs] read_rows_Inr [OF vs] np_asarray_int_ok [OF f]
    np_rect_Inr [OF v] m nv nf ls ls2
  show ?thesis
    by (auto simp: np_add_scalar_minus_one)
qed

lemma load_NAT_Inr:
  assumes ok: "load_NAT flt ifile name = Inr m"
  shows "\<exists>nv nf vs src.
     map_err py_int (py_split (fst (readline (snd (readline ifile))))) = Inr [nv, nf] \<and>
     map_err (\<lambda>l. map_err flt (py_split l)) (next_lines (nat nv) (drop 2 ifile)) = Inr vs \<and>
     map_err (\<lambda>l. map_err py_int (py_split l))
       (next_lines (nat nf) (drop (2 + nat nv) ifile)) = Inr src \<and>
     list_all (list_all int64_ok) src \<and>
     m = Mesh vs (map (map (\<lambda>v. wrap64 (v - 1))) src) name"
proof -
  let ?ls1 = "snd (readline ifile)"
  let ?ls = "snd (readline ?ls1)"
  obtain counts where c: "map_err py_int (py_split (fst (readline ?ls1))) = Inr counts"
    using ok by (cases "map_err py_int (py_split (fst (readline ?ls1)))")
      (simp_all add: load_NAT_def Let_def)
  obtain nv nf where cs: "counts = [nv, nf]"
    using ok c by (auto simp: load_NAT_def Let_def split: list.splits)
  obtain vs ls2 where vs: "read_rows flt (nat nv) ?ls = Inr (vs, ls2)"
    using ok c cs by (cases "read_rows flt (nat nv) ?ls") (auto simp: load_NAT_def Let_def)
  obtain vertices where v: "np_rect vs = Inr vertices"
    using ok c cs vs by (cases "np_rect vs") (auto simp: load_NAT_def Let_def)
  obtain fs ls3 where fs: "read_rows py_int (nat nf) ls2 = Inr (fs, ls3)"
    using ok c cs vs v by (cases "read_rows py_int (nat nf) ls2")
      (auto simp: load_NAT_def Let_def)
  obtain faces where f: "np_asarray_int fs = Inr faces"
    using ok c cs vs v fs by (cases "np_asarray_int fs") (auto simp: load_NAT_def Let_def)
  have m: "m = Mesh vertices (np_add_scalar faces (- 1)) name"
    using ok c cs vs v fs f by (auto simp: load_NAT_def Let_def)
  have ls: "?ls = drop 2 ifile"
    by (cases ifile; cases "tl ifile") (auto simp: readline_def)
  have ls2: "ls2 = drop (2 + nat nv) ifile"
    using read_rows_Inr [OF vs] ls by (simp add: add.commute)
  from read_rows_Inr [OF fs] read_rows_Inr [OF vs] np_asarray_int_ok [OF f]
    np_rect_Inr [OF v] m c cs ls ls2
  show ?thesis
    by (auto simp: np_add_scalar_minus_one)
qed

lemma read_MAR_faces_Inr:
  "read_MAR_faces ls = Inr (rows, rest) \<Longrightarrow>
     map_err (\<lambda>l. map_err py_int (py_split l)) (takeWhile (\<lambda>l. \<not> is_sentinel l) ls) = Inr rows"
proof (induction ls arbitrary: rows)
  case Nil
  then show ?case by simp
next
  case (Cons l ls)
  show ?case
  proof (cases "py_split l")
    case Nil
    with Cons.prems show ?thesis by simp
  next
    case (Cons t ts)
    show ?thesis
    proof (cases "t = ''0''")
      case True
      then have "is_sentinel l" using Cons by (simp add: is_sentinel_def)
      moreover from True Cons.prems Cons have "rows = []" by simp
      ultimately show ?thesis by simp
    next
      case False
      then have ns: "\<not> is_sentinel l" using Cons by (simp add: is_sentinel_def)
      from False Cons.prems Cons obtain row rows' where
        "map_err py_int (py_split l) = Inr row"
        "read_MAR_faces ls = Inr (rows', rest)" "rows = row # rows'"
        by (auto simp: andthen_eq_Inr)
      with Cons.IH [of rows'] ns show ?thesis by auto
    qed
  qed
qed

lemma read_MAR_vertices_rows:
  "read_MAR_vertices flt ls = Inr (rows, rest) \<Longrightarrow>
     map_err (\<lambda>l. map_err flt (tl (py_split l))) (takeWhile (\<lambda>l. \<not> is_sentinel l) ls)
       = Inr rows"
proof (induction ls arbitrary: rows)
  case Nil
  then show ?case by simp
next
  case (Cons l ls)
  show ?case
  proof (cases "py_split l")
    case Nil
    with Cons.prems show ?thesis by simp
  next
    case (Cons t ts)
    show ?thesis
    proof (cases "t = ''0''")
      case True
      then have "is_sentinel l" using Cons by (simp add: is_sentinel_def)
      moreover from True Cons.prems Cons have "rows = []" by simp
      ultimately show ?thesis by simp
    next
      case False
      then have ns: "\<not> is_sentinel l" using Cons by (simp add: is_sentinel_def)
      from False Cons.prems Cons obtain row rows' where
        "map_err flt (tl (py_split l)) = Inr row"
        "read_MAR_vertices flt ls = Inr (rows', rest)" "rows = row # rows'"
        by (auto simp: andthen_eq_Inr)
      with Cons.IH [of rows'] ns show ?thesis by auto
    qed
  qed
qed

lemma load_MAR_Inr:
  assumes ok: "load_MAR flt ifile name = Inr r"
  shows "\<exists>vs src m.
     map_err (\<lambda>l. map_err flt (tl (py_split l)))
       (takeWhile (\<lambda>l. \<not> is_sentinel l) (tl ifile)) = Inr vs \<and>
     map_err (\<lambda>l. map_err py_int (py_split l))
       (takeWhile (\<lambda>l. \<not> is_sentinel l)
          (drop (Suc (length (takeWhile (\<lambda>l. \<not> is_sentinel l) (tl ifile)))) (tl ifile)))
       = Inr src \<and>
     list_all (list_all int64_ok) src \<and>
     length vs < length (tl ifile) \<and>
     (r = Plain m \<or> (\<exists>nm. r = ReflectionSymmetricMesh m xOz_Plane nm)) \<and>
     mesh_vertices m = vs \<and>
     mesh_faces m = map (map (\<lambda>v. wrap64 (v - 1))) src"
proof -
  obtain u sym where hd: "py_split (fst (readline ifile)) = [u, sym]"
    using ok by (auto simp: load_MAR_def split: list.splits)
  then obtain header rest where ifile: "ifile = header # rest"
    by (cases ifile) (auto simp: py_split_def)
  obtain vs ls1 where vs: "read_MAR_vertices flt rest = Inr (vs, ls1)"
    using ok hd ifile by (cases "read_MAR_vertices flt rest") (auto simp: load_MAR_def)
  obtain vertices where v: "np_rect vs = Inr vertices"
    using ok hd ifile vs by (cases "np_rect vs") (auto simp: load_MAR_def)
  obtain fs ls2 where fs: "read_MAR_faces ls1 = Inr (fs, ls2)"
    using ok hd ifile vs v by (cases "read_MAR_faces ls1") (auto simp: load_MAR_def)
  obtain faces where f: "np_asarray_int fs = Inr faces"
    using ok hd ifile vs v fs by (cases "np_asarray_int fs") (auto simp: load_MAR_def)
  obtain flag where flag: "py_int sym = Inr flag"
    using ok hd ifile vs v fs f by (cases "py_int sym") (auto simp: load_MAR_def)
  from ok hd ifile vs v fs f flag
  obtain m where m: "r = Plain m \<or> (\<exists>nm. r = ReflectionSymmetricMesh m xOz_Plane nm)"
    "mesh_faces m = np_add_scalar faces (- 1)" "mesh_vertices m = vertices"
    by (cases name; cases "flag = 1") (auto simp: load_MAR_def)
  have ls1: "ls1 = drop (Suc (length (takeWhile (\<lambda>l. \<not> is_sentinel l) rest))) rest"
    and lt: "length vs < length rest"
    using read_MAR_vertices_Inr [OF vs] by simp_all
  from read_MAR_faces_Inr [OF fs] read_MAR_vertices_rows [OF vs] np_asarray_int_ok [OF f]
    np_rect_Inr [OF v] m ls1 lt ifile
  show ?thesis
    by (auto simp: np_add_scalar_minus_one)
qed

lemma load_RAD_Inr:
  assumes ok: "load_RAD flt data name = Inr m"
  shows "\<exists>nodes elems vs src.
     rad_node_section data = Some nodes \<and>
     map_err (\<lambda>(x, y, z). map_err flt [x, y, z]) nodes = Inr vs \<and>
     rad_elem_section data = Some elems \<and>
     map_err (\<lambda>elem. map_err py_int (drop 3 (py_split (py_strip elem)))) elems = Inr src \<and>
     list_all (list_all int64_ok) src \<and>
     m = Mesh vs (map (map (\<lambda>v. wrap64 (v - 1))) src) name"
proof -
  obtain nodes where n: "rad_node_section data = Some nodes"
    using ok by (cases "rad_node_section data") (simp_all add: load_RAD_def)
  obtain vs where vs: "map_err (\<lambda>(x, y, z). map_err flt [x, y, z]) nodes = Inr vs"
    using ok n by (cases "map_err (\<lambda>(x, y, z). map_err flt [x, y, z]) nodes")
      (simp_all add: load_RAD_def)
  obtain vertices where v: "np_rect vs = Inr vertices"
    using ok n vs by (cases "np_rect vs") (simp_all add: load_RAD_def)
  obtain elems where e: "rad_elem_section data = Some elems"
    using ok n vs v by (cases "rad_elem_section data") (simp_all add: load_RAD_def)
  obtain fs where fs:
    "map_err (\<lambda>elem. map_err py_int (drop 3 (py_split (py_strip elem)))) elems = Inr fs"
    using ok n vs v e
    by (cases "map_err (\<lambda>elem. map_err py_int (drop 3 (py_split (py_strip elem)))) elems")
       (simp_all add: load_RAD_def)
  obtain faces where f: "np_asarray_int fs = Inr faces"
    using ok n vs v e fs by (cases "np_asarray_int fs") (simp_all add: load_RAD_def)
  have m: "m = Mesh vertices (np_add_scalar faces (- 1)) name"
    using ok n vs v e fs f by (auto simp: load_RAD_def)
  from np_asarray_int_ok [OF f] np_rect_Inr [OF v] m n vs e fs show ?thesis
    by (auto simp: np_add_scalar_minus_one)
qed

lemma concat_replicate_snoc: "concat (replicate k a) @ a = concat (replicate (Suc k) a)"
  by (induction k) simp_all

lemma read_HST_sections_array:
  assumes r: "read_HST_sections conv asarray secs (NdArray a) acc n = Inr res"
    and idem: "asarray a = Inr a"
    and acc: "acc = concat (replicate k a)" "0 < k"
    and n: "n = length acc"
  shows "list_all (\<lambda>sec. sec = []) secs \<and> res = concat (replicate (k + length secs) a)"
  using r acc n
proof (induction secs arbitrary: acc n k res)
  case Nil
  then show ?case by simp
next
  case (Cons sec secs)
  from Cons.prems(1) have e: "sec = []"
    by (cases "sec = []") (simp_all add: append_rows_def)
  show ?case
  proof (cases "n = 0")
    case True
    with Cons.prems have a0: "a = []"
      by (cases k) auto
    from Cons.prems(1) e idem True
    have rec: "read_HST_sections conv asarray secs (NdArray a) a (length a) = Inr res"
      by (simp add: append_rows_def)
    from Cons.IH [OF rec, of "Suc k"] a0 e show ?thesis by simp
  next
    case False
    from Cons.prems(1) e idem False obtain acc' where
      c: "np_concatenate acc a = Inr acc'" and
      rec: "read_HST_sections conv asarray secs (NdArray a) acc' (n + length a) = Inr res"
      by (auto simp: append_rows_def andthen_eq_Inr)
    have acc': "acc' = concat (replicate (Suc k) a)"
      using np_concatenate_Inr [OF c] Cons.prems(2) by (simp add: concat_replicate_snoc)
    have "n + length a = length acc'"
      using np_concatenate_Inr [OF c] Cons.prems(4) by simp
    from Cons.IH [OF rec acc' _ this] e show ?thesis by simp
  qed
qed

lemma read_HST_sections_Inr:
  assumes r: "read_HST_sections conv asarray (sec # secs) (PyList []) [] 0 = Inr res"
    and same: "\<And>x y. asarray x = Inr y \<Longrightarrow> y = x"
  shows "\<exists>src. map_err conv sec = Inr src \<and> asarray src = Inr src \<and>
           list_all (\<lambda>sec. sec = []) secs \<and>
           res = concat (replicate (Suc (length secs)) src)"
proof -
  obtain src where src: "map_err conv sec = Inr src"
    using r by (cases "map_err conv sec") (simp_all add: append_rows_def)
  obtain a where a: "asarray src = Inr a"
    using r src by (cases "asarray src") (simp_all add: append_rows_def)
  have eq: "a = src" using same [OF a] .
  from r src a eq
  have rec: "read_HST_sections conv asarray secs (NdArray src) src (length src) = Inr res"
    by (simp add: append_rows_def)
  from read_HST_sections_array [OF rec _ _ _ refl, of 1] a eq
  have "list_all (\<lambda>sec. sec = []) secs \<and> res = concat (replicate (1 + length secs) src)"
    by simp
  with src a eq show ?thesis by auto
qed

lemma load_HST_Inr:
  assumes ok: "load_HST flt data name = Inr m"
  shows "\<exists>sec secs src.
     elem_sections data = sec # secs \<and> list_all (\<lambda>s. s = []) secs \<and>
     map_err (\<lambda>elem. map_err py_int (py_split elem)) sec = Inr src \<and>
     list_all (list_all int64_ok) src \<and>
     mesh_faces m =
       map (map (\<lambda>v. wrap64 (v - 1))) (concat (replicate (Suc (length secs)) src)) \<and>
     (case node_sections data of
        [] \<Rightarrow> mesh_vertices m = []
      | nsec # nsecs \<Rightarrow>
          list_all (\<lambda>s. s = []) nsecs \<and>
          (\<exists>vs. map_err (\<lambda>node. map_err flt (tl (py_split node))) nsec = Inr vs \<and>
             mesh_vertices m = concat (replicate (Suc (length nsecs)) vs)))"
proof -
  obtain vertices where v:
    "read_HST_sections (\<lambda>node. map_err flt (tl (py_split node))) np_rect
          (node_sections data) (PyList []) [] 0 = Inr vertices"
    using ok
    by (cases "read_HST_sections (\<lambda>node. map_err flt (tl (py_split node))) np_rect
          (node_sections data) (PyList []) [] 0") (simp_all add: load_HST_def)
  obtain faces where f:
    "read_HST_sections (\<lambda>elem. map_err py_int (py_split elem)) np_asarray_int
          (elem_sections data) (PyList []) [] 0 = Inr faces"
    using ok v
    by (cases "read_HST_sections (\<lambda>elem. map_err py_int (py_split elem)) np_asarray_int
          (elem_sections data) (PyList []) [] 0") (simp_all add: load_HST_def)
  obtain sec secs where s: "elem_sections data = sec # secs"
    using ok v f by (cases "elem_sections data") (simp_all add: load_HST_def)
  have m: "mesh_faces m = np_add_scalar faces (- 1)" "mesh_vertices m = vertices"
    using ok v f s by (auto simp: load_HST_def)
  from read_HST_sections_Inr [OF f [unfolded s]] np_asarray_int_Inr
  obtain src where src:
    "map_err (\<lambda>elem. map_err py_int (py_split elem)) sec = Inr src"
    "np_asarray_int src = Inr src" "list_all (\<lambda>sec. sec = []) secs"
    "faces = concat (replicate (Suc (length secs)) src)"
    by blast
  have vpart: "case node_sections data of
        [] \<Rightarrow> mesh_vertices m = []
      | nsec # nsecs \<Rightarrow>
          list_all (\<lambda>s. s = []) nsecs \<and>
          (\<exists>vs. map_err (\<lambda>node. map_err flt (tl (py_split node))) nsec = Inr vs \<and>
             mesh_vertices m = concat (replicate (Suc (length nsecs)) vs))"
  proof (cases "node_sections data")
    case Nil
    with v m show ?thesis by simp
  next
    case (Cons nsec nsecs)
    from read_HST_sections_Inr [OF v [unfolded Cons]] np_rect_Inr
    obtain vs where
      "map_err (\<lambda>node. map_err flt (tl (py_split node))) nsec = Inr vs"
      "list_all (\<lambda>sec. sec = []) nsecs"
      "vertices = concat (replicate (Suc (length nsecs)) vs)"
      by blast
    with Cons m show ?thesis by auto
  qed
  from src np_asarray_int_ok [of src src] m s vpart show ?thesis
    by (auto simp: np_add_scalar_minus_one)
qed

lemma reshape_rows_all:
  "list_all P xs \<Longrightarrow> list_all (list_all P) (reshape_rows n w xs)"
proof -
  assume a: "list_all P xs"
  have "\<And>i. set (take w (drop (i * w) xs)) \<subseteq> set xs"
    using set_take_subset set_drop_subset by fast
  with a show ?thesis
    by (auto simp: reshape_rows_def list_all_iff)
qed

lemma load_TEC_Inr:
  assumes ok: "load_TEC flt found name = Inr m"
  shows "\<exists>nv_s nf_s vertices_s faces_s nv nf xs ids src.
     found = Some (nv_s, nf_s, vertices_s, faces_s) \<and>
     py_int nv_s = Inr nv \<and> py_int nf_s = Inr nf \<and>
     map_err flt (py_split vertices_s) = Inr xs \<and>
     map_err py_int (py_split faces_s) = Inr ids \<and>
     reshape_width4 nf ids = Inr src \<and>
     list_all (list_all int64_ok) src \<and>
     mesh_faces m = map (map (\<lambda>v. wrap64 (v - 1))) src"
proof -
  obtain nv_s nf_s vertices_s faces_s where
    fd: "found = Some (nv_s, nf_s, vertices_s, faces_s)"
    using ok by (cases found) (auto simp: load_TEC_def)
  obtain nv where nv: "py_int nv_s = Inr nv"
    using ok fd by (cases "py_int nv_s") (simp_all add: load_TEC_def)
  obtain nf where nf: "py_int nf_s = Inr nf"
    using ok fd nv by (cases "py_int nf_s") (simp_all add: load_TEC_def)
  obtain xs where xs: "map_err flt (py_split vertices_s) = Inr xs"
    using ok fd nv nf by (cases "map_err flt (py_split vertices_s)")
      (simp_all add: load_TEC_def)
  obtain rows where rows: "reshape_unknown_width nv xs = Inr rows"
    using ok fd nv nf xs by (cases "reshape_unknown_width nv xs")
      (simp_all add: load_TEC_def)
  obtain ids where ids: "map_err py_int (py_split faces_s) = Inr ids"
    using ok fd nv nf xs rows by (cases "map_err py_int (py_split faces_s)")
      (simp_all add: load_TEC_def)
  have rng: "list_all int64_ok ids"
    using ok fd nv nf xs rows ids by (simp add: load_TEC_def split: if_splits)
  obtain faces where f: "reshape_width4 nf ids = Inr faces"
    using ok fd nv nf xs rows ids rng by (cases "reshape_width4 nf ids")
      (simp_all add: load_TEC_def)
  have m: "mesh_faces m = np_add_scalar faces (- 1)"
    using ok fd nv nf xs rows ids rng f by (auto simp: load_TEC_def)
  have "list_all (list_all int64_ok) faces"
    using f reshape_rows_all [OF rng]
    by (auto simp: reshape_width4_def split: if_splits)
  with fd nv nf xs ids f m show ?thesis
    by (auto simp: np_add_scalar_minus_one)
qed

lemma load_MSH_Inr:
  assumes ok: "load_MSH flt data name = Inr m"
  shows "\<exists>nb_nodes_s nodes_data nb_elts_s elts_data xs tris quads.
     Nodes data = Some (nb_nodes_s, nodes_data) \<and>
     Elements data = Some (nb_elts_s, elts_data) \<and>
     map_err flt (py_split nodes_data) = Inr xs \<and>
     map_err read_triangle (tri_elts data) = Inr tris \<and>
     map_err read_quadrangle (quad_elts data) = Inr quads \<and>
     list_all (list_all int64_ok) (tris @ quads) \<and>
     mesh_faces m = map (map (\<lambda>v. wrap64 (v - 1))) (tris @ quads)"
proof -
  obtain a b where n: "Nodes data = Some (a, b)"
    using ok by (cases "Nodes data") (auto simp: load_MSH_def)
  obtain c d where e: "Elements data = Some (c, d)"
    using ok n by (cases "Elements data") (auto simp: load_MSH_def)
  obtain xs where xs: "map_err flt (py_split b) = Inr xs"
    using ok n e by (cases "map_err flt (py_split b)") (simp_all add: load_MSH_def)
  have k: "length xs mod 4 = 0"
    using ok n e xs by (simp add: load_MSH_def split: if_splits)
  obtain tris where t: "map_err read_triangle (tri_elts data) = Inr tris"
    using ok n e xs k by (cases "map_err read_triangle (tri_elts data)")
      (simp_all add: load_MSH_def)
  obtain quads where q: "map_err read_quadrangle (quad_elts data) = Inr quads"
    using ok n e xs k t by (cases "map_err read_quadrangle (quad_elts data)")
      (simp_all add: load_MSH_def)
  obtain faces where f: "np_asarray_int (tris @ quads) = Inr faces"
    using ok n e xs k t q by (cases "np_asarray_int (tris @ quads)")
      (simp_all add: load_MSH_def)
  have m: "mesh_faces m = np_add_scalar faces (- 1)"
    using ok n e xs k t q f by (auto simp: load_MSH_def)
  from np_asarray_int_ok [OF f] m n e xs t q show ?thesis
    by (auto simp: np_add_scalar_minus_one)
qed

subsection \<open>Face indices\<close>




subsection \<open>Missing regions and tokens that do not convert\<close>

lemma map_err_all_convert: "map_err conv toks = Inr xs \<Longrightarrow> all_convert conv toks"
  by (induction toks arbitrary: xs) (auto simp: all_convert_def split: sum.splits)

lemma map_err_rows_all_convert:
  "map_err (\<lambda>l. map_err conv (g l)) ls = Inr rows \<Longrightarrow> list_all (\<lambda>l. all_convert conv (g l)) ls"
  by (induction ls arbitrary: rows) (auto simp: map_err_all_convert split: sum.splits)

lemma map_err_Inl: "map_err f xs = Inl e \<Longrightarrow> \<exists>x\<in>set xs. f x = Inl e"
  by (induction xs) (auto split: sum.splits)

lemma py_int_error: "py_int s = Inl e \<Longrightarrow> e = ValueError"
  by (auto simp: py_int_def Let_def split: if_splits)

lemma gdf_rows_all_convert:
  "map_err (gdf_row flt) ls = Inr vs \<Longrightarrow> list_all (\<lambda>l. all_convert flt (py_split l)) ls"
proof (induction ls arbitrary: vs)
  case Nil
  then show ?case by simp
next
  case (Cons l ls)
  from Cons.prems obtain r vs' where r: "gdf_row flt l = Inr r" and
    rest: "map_err (gdf_row flt) ls = Inr vs'"
    by (auto split: sum.splits)
  from r obtain xs where "map_err flt (py_split l) = Inr xs"
    by (auto simp: gdf_row_def andthen_eq_Inr)
  then have "all_convert flt (py_split l)" by (rule map_err_all_convert)
  with Cons.IH [OF rest] show ?case by simp
qed

lemma rad_rows_rect:
  "map_err (\<lambda>(x, y, z). map_err flt [x, y, z]) nodes = Inr vs \<Longrightarrow> np_rect vs = Inr vs"
proof -
  assume a: "map_err (\<lambda>(x, y, z). map_err flt [x, y, z]) nodes = Inr vs"
  have "list_all (\<lambda>r. length r = 3) vs"
    using a
  proof (induction nodes arbitrary: vs)
    case Nil
    then show ?case by simp
  next
    case (Cons n nodes)
    obtain x y z where n: "n = (x, y, z)" by (cases n)
    from Cons.prems obtain r vs' where
      r: "map_err flt [x, y, z] = Inr r" and
      rest: "map_err (\<lambda>(x, y, z). map_err flt [x, y, z]) nodes = Inr vs'" and
      eq: "vs = r # vs'"
      by (auto simp: n split: sum.splits)
    from map_err_length [OF r] Cons.IH [OF rest] eq show ?case by simp
  qed
  then show ?thesis
    by (cases vs) (auto simp: np_rect_def list_all_iff)
qed

lemma read_triangle_tokens: "read_triangle l = Inr r \<Longrightarrow> all_convert py_int (py_split l)"
  by (auto simp: read_triangle_def andthen_eq_Inr map_err_all_convert)

lemma read_quadrangle_tokens: "read_quadrangle l = Inr r \<Longrightarrow> all_convert py_int (py_split l)"
  by (auto simp: read_quadrangle_def andthen_eq_Inr map_err_all_convert)

lemma map_err_Inr_list_all:
  "map_err f xs = Inr ys \<Longrightarrow> (\<And>x y. f x = Inr y \<Longrightarrow> P x) \<Longrightarrow> list_all P xs"
  by (induction xs arbitrary: ys) (auto split: sum.splits)

lemma load_HST_no_elements:
  "elem_sections hst = [] \<Longrightarrow> load_HST flt hst name \<noteq> Inr m"
  by (cases "read_HST_sections (\<lambda>node. map_err flt (tl (py_split node))) np_rect
          (node_sections hst) (PyList []) [] 0") (simp_all add: load_HST_def)

lemma load_MAR_no_sentinel:
  assumes "list_all (\<lambda>l. \<not> is_sentinel l) (tl ifile)"
  shows "load_MAR flt ifile name \<noteq> Inr r"
proof
  assume ok: "load_MAR flt ifile name = Inr r"
  from load_MAR_Inr [OF ok] obtain vs where
    vs: "map_err (\<lambda>l. map_err flt (tl (py_split l)))
       (takeWhile (\<lambda>l. \<not> is_sentinel l) (tl ifile)) = Inr vs" and
    lt: "length vs < length (tl ifile)"
    by blast
  from assms have "takeWhile (\<lambda>l. \<not> is_sentinel l) (tl ifile) = tl ifile"
    by (simp add: list_all_iff)
  with map_err_length [OF vs] lt show False by simp
qed

lemma map_err_error:
  assumes H: "\<forall>s e. conv s = Inl e \<longrightarrow> e = E" and m: "map_err conv xs = Inl e"
  shows "e = E"
  using map_err_Inl [OF m] H by blast

lemma map_err_rows_error:
  assumes H: "\<forall>s e. conv s = Inl e \<longrightarrow> e = E"
    and m: "map_err (\<lambda>l. map_err conv (g l)) ls = Inl e"
  shows "e = E"
proof -
  from map_err_Inl [OF m] obtain l where "map_err conv (g l) = Inl e" by blast
  from map_err_error [OF H this] show ?thesis .
qed

lemma map_err_not_converting:
  assumes H: "\<forall>s e. conv s = Inl e \<longrightarrow> e = E" and n: "\<not> all_convert conv toks"
  shows "map_err conv toks = Inl E"
proof (cases "map_err conv toks")
  case (Inl e)
  with map_err_error [OF H Inl] show ?thesis by simp
next
  case (Inr xs)
  from map_err_all_convert [OF Inr] n show ?thesis by simp
qed

lemma map_err_rows_not_converting:
  assumes H: "\<forall>s e. conv s = Inl e \<longrightarrow> e = E"
    and n: "\<not> list_all (\<lambda>l. all_convert conv (g l)) ls"
  shows "map_err (\<lambda>l. map_err conv (g l)) ls = Inl E"
proof (cases "map_err (\<lambda>l. map_err conv (g l)) ls")
  case (Inl e)
  with map_err_rows_error [OF H Inl] show ?thesis by simp
next
  case (Inr rows)
  from map_err_rows_all_convert [OF Inr] n show ?thesis by simp
qed

lemma map_err_converting:
  "all_convert conv toks \<Longrightarrow> \<exists>xs. map_err conv toks = Inr xs"
  by (induction toks) (auto simp: all_convert_def isl_def split: sum.splits)

lemma py_int_errors: "\<forall>s e. py_int s = Inl e \<longrightarrow> e = ValueError"
  using py_int_error by blast

lemma np_rect_cases: "np_rect rows = Inl ValueError \<or> np_rect rows = Inr rows"
  by (simp add: np_rect_def)

lemma readline_snd: "snd (readline ls) = drop 1 ls"
  by (cases ls) simp_all

lemma readline_snd_snd: "snd (readline (snd (readline ls))) = drop 2 ls"
  by (simp add: readline_snd numeral_2_eq_2)

lemma next_lines_take: "n \<le> length ls \<Longrightarrow> next_lines n ls = take n ls"
  by (induction n arbitrary: ls) (case_tac ls; simp)+

lemma read_rows_error:
  assumes H: "\<forall>s e. conv s = Inl e \<longrightarrow> e = E"
  shows "read_rows conv n ls = Inl e \<Longrightarrow> e = E"
proof (induction n arbitrary: ls)
  case 0
  then show ?case by simp
next
  case (Suc n)
  show ?case
  proof (cases "map_err conv (py_split (fst (readline ls)))")
    case (Inl e')
    with Suc.prems have "e' = e" by simp
    with map_err_error [OF H Inl] show ?thesis by simp
  next
    case (Inr row)
    with Suc.prems have "read_rows conv n (snd (readline ls)) = Inl e"
      by (cases "read_rows conv n (snd (readline ls))") auto
    then show ?thesis by (rule Suc.IH)
  qed
qed

lemma read_rows_not_converting:
  assumes H: "\<forall>s e. conv s = Inl e \<longrightarrow> e = E"
    and n: "\<not> list_all (\<lambda>l. all_convert conv (py_split l)) (next_lines n ls)"
  shows "read_rows conv n ls = Inl E"
proof (cases "read_rows conv n ls")
  case (Inl e)
  with read_rows_error [OF H Inl] show ?thesis by simp
next
  case (Inr p)
  obtain rows rest where "p = (rows, rest)" by (cases p)
  with Inr read_rows_Inr [of conv n ls rows rest] n map_err_rows_all_convert
  show ?thesis by blast
qed

lemma read_tables_cases:
  assumes H: "\<forall>s e. flt s = Inl e \<longrightarrow> e = ValueError"
    and n: "\<not> (list_all (\<lambda>l. all_convert flt (py_split l)) (next_lines nv ls) \<and>
              list_all (\<lambda>l. all_convert py_int (py_split l)) (next_lines nf (drop nv ls)))"
  shows "read_rows flt nv ls = Inl ValueError \<or>
         (\<exists>vs. read_rows flt nv ls = Inr (vs, drop nv ls) \<and>
            (np_rect vs = Inl ValueError \<or>
             np_rect vs = Inr vs \<and> read_rows py_int nf (drop nv ls) = Inl ValueError))"
proof (cases "read_rows flt nv ls")
  case (Inl e)
  with read_rows_error [OF H Inl] show ?thesis by simp
next
  case (Inr p)
  obtain vs rest where p: "p = (vs, rest)" by (cases p)
  from read_rows_Inr [of flt nv ls vs rest] Inr p have
    r: "rest = drop nv ls" and
    c: "map_err (\<lambda>l. map_err flt (py_split l)) (next_lines nv ls) = Inr vs"
    by simp_all
  from map_err_rows_all_convert [OF c] n have
    "\<not> list_all (\<lambda>l. all_convert py_int (py_split l)) (next_lines nf (drop nv ls))"
    by simp
  then have "read_rows py_int nf (drop nv ls) = Inl ValueError"
    by (rule read_rows_not_converting [OF py_int_errors])
  with Inr p r np_rect_cases [of vs] show ?thesis by auto
qed

lemma load_NAT_fails:
  assumes H: "\<forall>s e. flt s = Inl e \<longrightarrow> e = ValueError"
    and n: "\<not> (\<exists>nv nf.
        map_err py_int (py_split (fst (readline (snd (readline ifile))))) = Inr [nv, nf] \<and>
        list_all (\<lambda>l. all_convert flt (py_split l)) (next_lines (nat nv) (drop 2 ifile)) \<and>
        list_all (\<lambda>l. all_convert py_int (py_split l))
          (next_lines (nat nf) (drop (2 + nat nv) ifile)))"
  shows "load_NAT flt ifile name = Inl ValueError"
proof (cases "map_err py_int (py_split (fst (readline (snd (readline ifile)))))")
  case (Inl e)
  from map_err_error [OF py_int_errors Inl] Inl show ?thesis
    by (simp add: load_NAT_def Let_def)
next
  case (Inr counts)
  show ?thesis
  proof (cases "\<exists>nv nf. counts = [nv, nf]")
    case False
    with Inr show ?thesis
      by (auto simp: load_NAT_def Let_def split: list.splits)
  next
    case True
    then obtain nv nf where c: "counts = [nv, nf]" by blast
    with Inr n have
      "\<not> (list_all (\<lambda>l. all_convert flt (py_split l)) (next_lines (nat nv) (drop 2 ifile)) \<and>
          list_all (\<lambda>l. all_convert py_int (py_split l))
            (next_lines (nat nf) (drop (nat nv) (drop 2 ifile))))"
      by (simp add: add.commute)
    from read_tables_cases [OF H this] Inr c show ?thesis
      by (auto simp: load_NAT_def Let_def readline_snd_snd)
  qed
qed

lemma load_NEM_fails:
  assumes H: "\<forall>s e. flt s = Inl e \<longrightarrow> e = ValueError"
    and n: "\<not> (\<exists>nv nf.
        py_int (fst (readline ifile)) = Inr nv \<and>
        py_int (fst (readline (snd (readline ifile)))) = Inr nf \<and>
        list_all (\<lambda>l. all_convert flt (py_split l)) (next_lines (nat nv) (drop 2 ifile)) \<and>
        list_all (\<lambda>l. all_convert py_int (py_split l))
          (next_lines (nat nf) (drop (2 + nat nv) ifile)))"
  shows "load_NEM flt ifile name = Inl ValueError"
proof (cases "py_int (fst (readline ifile))")
  case (Inl e)
  with py_int_error [OF Inl] show ?thesis
    by (simp add: load_NEM_def)
next
  case nv: (Inr nv)
  show ?thesis
  proof (cases "py_int (fst (readline (snd (readline ifile))))")
    case (Inl e)
    with py_int_error [OF Inl] nv show ?thesis
      by (simp add: load_NEM_def)
  next
    case nf: (Inr nf)
    with nv n have
      "\<not> (list_all (\<lambda>l. all_convert flt (py_split l)) (next_lines (nat nv) (drop 2 ifile)) \<and>
          list_all (\<lambda>l. all_convert py_int (py_split l))
            (next_lines (nat nf) (drop (nat nv) (drop 2 ifile))))"
      by (simp add: add.commute)
    from read_tables_cases [OF H this] nv nf show ?thesis
      by (auto simp: load_NEM_def readline_snd_snd)
  qed
qed

lemma load_NAT_no_rows:
  assumes "map_err py_int (py_split (fst (readline (snd (readline ifile))))) = Inr [nv, nf]"
    and "nv \<le> 0" and "nf \<le> 0"
  shows "load_NAT flt ifile name = Inr (Mesh [] [] name)"
  using assms
  by (simp add: load_NAT_def Let_def np_rect_def np_asarray_int_def np_add_scalar_def)

lemma load_NEM_no_rows:
  assumes "py_int (fst (readline ifile)) = Inr nv"
    and "py_int (fst (readline (snd (readline ifile)))) = Inr nf"
    and "nv \<le> 0" and "nf \<le> 0"
  shows "load_NEM flt ifile name = Inr (Mesh [] [] name)"
  using assms
  by (simp add: load_NEM_def np_rect_def np_asarray_int_def np_add_scalar_def)

lemma gdf_row_error:
  assumes H: "\<forall>s e. flt s = Inl e \<longrightarrow> e = ValueError" and g: "gdf_row flt l = Inl e"
  shows "e = ValueError"
proof (cases "map_err flt (py_split l)")
  case (Inl e')
  with g have "e' = e" by (simp add: gdf_row_def)
  with map_err_error [OF H Inl] show ?thesis by simp
next
  case (Inr xs)
  with g show ?thesis by (simp add: gdf_row_def split: if_splits)
qed

lemma read_GDF_face_error:
  assumes H: "\<forall>s e. flt s = Inl e \<longrightarrow> e = ValueError"
  shows "read_GDF_face flt k iv ls = Inl e \<Longrightarrow> e = ValueError"
proof (induction k arbitrary: iv ls)
  case 0
  then show ?case by simp
next
  case (Suc k)
  show ?case
  proof (cases "gdf_row flt (fst (readline ls))")
    case (Inl e')
    with Suc.prems have "e' = e" by simp
    with gdf_row_error [OF H Inl] show ?thesis by simp
  next
    case (Inr row)
    with Suc.prems have "read_GDF_face flt k (iv + 1) (snd (readline ls)) = Inl e"
      by (cases "read_GDF_face flt k (iv + 1) (snd (readline ls))") auto
    then show ?thesis by (rule Suc.IH)
  qed
qed

lemma read_GDF_faces_error:
  assumes H: "\<forall>s e. flt s = Inl e \<longrightarrow> e = ValueError"
  shows "read_GDF_faces flt n iv ls = Inl e \<Longrightarrow> e = ValueError"
proof (induction n arbitrary: iv ls)
  case 0
  then show ?case by simp
next
  case (Suc n)
  show ?case
  proof (cases "read_GDF_face flt 4 iv ls")
    case (Inl e')
    with Suc.prems have "e' = e" by simp
    with read_GDF_face_error [OF H Inl] show ?thesis by simp
  next
    case (Inr p)
    obtain rows ids iv' rest where p: "p = (rows, ids, iv', rest)" by (cases p)
    with Inr Suc.prems have "read_GDF_faces flt n iv' rest = Inl e"
      by (cases "read_GDF_faces flt n iv' rest") auto
    then show ?thesis by (rule Suc.IH)
  qed
qed

lemma read_GDF_faces_not_converting:
  assumes H: "\<forall>s e. flt s = Inl e \<longrightarrow> e = ValueError"
    and n: "\<not> list_all (\<lambda>l. all_convert flt (py_split l)) (next_lines (4 * n) ls)"
  shows "read_GDF_faces flt n iv ls = Inl ValueError"
proof (cases "read_GDF_faces flt n iv ls")
  case (Inl e)
  with read_GDF_faces_error [OF H Inl] show ?thesis by simp
next
  case (Inr p)
  obtain vs fs where "p = (vs, fs)" by (cases p)
  with Inr read_GDF_faces_Inr [of flt n iv ls vs fs] have
    l: "4 * n \<le> length ls" and m: "map_err (gdf_row flt) (take (4 * n) ls) = Inr vs"
    by simp_all
  from gdf_rows_all_convert [OF m] next_lines_take [OF l] n show ?thesis by simp
qed

lemma next_lines_4:
  "next_lines 4 ls = [a, b, c, d] \<longleftrightarrow>
     fst (readline ls) = a \<and> fst (readline (snd (readline ls))) = b \<and>
     fst (readline (snd (readline (snd (readline ls))))) = c \<and>
     fst (readline (snd (readline (snd (readline (snd (readline ls))))))) = d"
  by (simp add: numeral_eq_Suc)

lemma readline_snd_4:
  "snd (readline (snd (readline (snd (readline (snd (readline ls))))))) = drop 4 ls"
  by (simp add: readline_snd numeral_eq_Suc)

lemma load_GDF_unfold:
  assumes h: "next_lines 4 ifile = [title, la, lb, lc]"
    and a: "two_tokens la = Inr p" and b: "two_tokens lb = Inr q"
    and t: "py_split lc = t # ts"
  shows "load_GDF flt ifile name =
     andthen (py_int t) (\<lambda>nf.
       if nf < 0 then Inl ValueError
       else andthen (read_GDF_faces flt (nat nf) (- 1) (drop 4 ifile))
              (\<lambda>(vtab, ftab). Inr (Mesh vtab ftab name)))"
  using assms
  by (cases p; cases q) (simp add: load_GDF_def Let_def next_lines_4 readline_snd_4 cong: if_cong)

lemma load_GDF_fails:
  assumes H: "\<forall>s e. flt s = Inl e \<longrightarrow> e = ValueError"
    and h: "next_lines 4 ifile = [title, la, lb, lc]"
    and a: "two_tokens la = Inr p" and b: "two_tokens lb = Inr q"
    and t: "py_split lc = t # ts"
    and n: "\<not> (\<exists>nf. py_int t = Inr (int nf) \<and>
              list_all (\<lambda>l. all_convert flt (py_split l))
                (next_lines (4 * nf) (drop 4 ifile)))"
  shows "load_GDF flt ifile name = Inl ValueError"
proof (cases "py_int t")
  case (Inl e)
  with py_int_error [OF Inl] show ?thesis
    by (simp add: load_GDF_unfold [OF h a b t])
next
  case (Inr nf)
  show ?thesis
  proof (cases "nf < 0")
    case True
    with Inr show ?thesis by (simp add: load_GDF_unfold [OF h a b t])
  next
    case False
    then have "int (nat nf) = nf" by simp
    with Inr n have "\<not> list_all (\<lambda>l. all_convert flt (py_split l))
        (next_lines (4 * nat nf) (drop 4 ifile))"
      by metis
    from read_GDF_faces_not_converting [OF H this] Inr False show ?thesis
      by (simp add: load_GDF_unfold [OF h a b t])
  qed
qed

lemma load_GDF_no_rows:
  assumes h: "next_lines 4 ifile = [title, la, lb, lc]"
    and a: "two_tokens la = Inr p" and b: "two_tokens lb = Inr q"
    and t: "py_split lc = t # ts" and z: "py_int t = Inr 0"
  shows "load_GDF flt ifile name = Inr (Mesh [] [] name)"
  using z by (simp add: load_GDF_unfold [OF h a b t])

lemma read_MAR_vertices_fails:
  assumes H: "\<forall>s e. flt s = Inl e \<longrightarrow> e = ValueError"
  shows "list_all (\<lambda>l. py_split l \<noteq> []) (takeWhile (\<lambda>l. \<not> is_sentinel l) ls) \<Longrightarrow>
     \<not> list_all (\<lambda>l. all_convert flt (tl (py_split l)))
         (takeWhile (\<lambda>l. \<not> is_sentinel l) ls) \<Longrightarrow>
     read_MAR_vertices flt ls = Inl ValueError"
proof (induction ls)
  case Nil
  then show ?case by simp
next
  case (Cons l ls)
  from Cons.prems(2) have ns: "\<not> is_sentinel l"
    by (cases "is_sentinel l") simp_all
  with Cons.prems(1) obtain t ts where sp: "py_split l = t # ts"
    by (cases "py_split l") simp_all
  with ns have t: "t \<noteq> ''0''" by (simp add: is_sentinel_def)
  show ?case
  proof (cases "all_convert flt ts")
    case False
    from map_err_not_converting [OF H False] sp t show ?thesis by simp
  next
    case True
    then obtain row where row: "map_err flt ts = Inr row"
      using map_err_converting by blast
    from True Cons.prems ns sp have
      "list_all (\<lambda>l. py_split l \<noteq> []) (takeWhile (\<lambda>l. \<not> is_sentinel l) ls)"
      "\<not> list_all (\<lambda>l. all_convert flt (tl (py_split l)))
         (takeWhile (\<lambda>l. \<not> is_sentinel l) ls)"
      by simp_all
    from Cons.IH [OF this] row sp t show ?thesis by simp
  qed
qed

lemma read_MAR_faces_fails:
  "list_all (\<lambda>l. py_split l \<noteq> []) (takeWhile (\<lambda>l. \<not> is_sentinel l) ls) \<Longrightarrow>
     \<not> list_all (\<lambda>l. all_convert py_int (py_split l))
         (takeWhile (\<lambda>l. \<not> is_sentinel l) ls) \<Longrightarrow>
     read_MAR_faces ls = Inl ValueError"
proof (induction ls)
  case Nil
  then show ?case by simp
next
  case (Cons l ls)
  from Cons.prems(2) have ns: "\<not> is_sentinel l"
    by (cases "is_sentinel l") simp_all
  with Cons.prems(1) obtain t ts where sp: "py_split l = t # ts"
    by (cases "py_split l") simp_all
  with ns have t: "t \<noteq> ''0''" by (simp add: is_sentinel_def)
  show ?case
  proof (cases "all_convert py_int (t # ts)")
    case False
    from map_err_not_converting [OF py_int_errors False] sp t show ?thesis by simp
  next
    case True
    then obtain row where row: "map_err py_int (t # ts) = Inr row"
      using map_err_converting by blast
    from True Cons.prems ns sp have
      "list_all (\<lambda>l. py_split l \<noteq> []) (takeWhile (\<lambda>l. \<not> is_sentinel l) ls)"
      "\<not> list_all (\<lambda>l. all_convert py_int (py_split l))
         (takeWhile (\<lambda>l. \<not> is_sentinel l) ls)"
      by simp_all
    from Cons.IH [OF this] row sp t show ?thesis by simp
  qed
qed

lemma load_MAR_vertices_fail:
  assumes H: "\<forall>s e. flt s = Inl e \<longrightarrow> e = ValueError"
    and h: "py_split header = [u, symmetric_mesh]"
    and ne: "list_all (\<lambda>l. py_split l \<noteq> []) (takeWhile (\<lambda>l. \<not> is_sentinel l) rest)"
    and n: "\<not> list_all (\<lambda>l. all_convert flt (tl (py_split l)))
              (takeWhile (\<lambda>l. \<not> is_sentinel l) rest)"
  shows "load_MAR flt (header # rest) name = Inl ValueError"
  using read_MAR_vertices_fails [OF H ne n] h by (simp add: load_MAR_def)

lemma load_MAR_faces_fail:
  assumes h: "py_split header = [u, symmetric_mesh]"
    and v: "read_MAR_vertices flt rest = Inr (vs, lsv)"
    and ne: "list_all (\<lambda>l. py_split l \<noteq> []) (takeWhile (\<lambda>l. \<not> is_sentinel l) lsv)"
    and n: "\<not> list_all (\<lambda>l. all_convert py_int (py_split l))
              (takeWhile (\<lambda>l. \<not> is_sentinel l) lsv)"
  shows "load_MAR flt (header # rest) name = Inl ValueError"
  using read_MAR_faces_fails [OF ne n] h v np_rect_cases [of vs]
  by (auto simp: load_MAR_def)

lemma load_MAR_flag_fails:
  assumes h: "py_split header = [u, symmetric_mesh]"
    and v: "read_MAR_vertices flt rest = Inr (vs, lsv)" and r: "np_rect vs = Inr vtab"
    and f: "read_MAR_faces lsv = Inr (fs, lsf)" and a: "np_asarray_int fs = Inr ftab"
    and n: "\<not> all_convert py_int [symmetric_mesh]"
  shows "load_MAR flt (header # rest) name = Inl ValueError"
proof -
  from map_err_not_converting [OF py_int_errors n] have "py_int symmetric_mesh = Inl ValueError"
    by (cases "py_int symmetric_mesh") simp_all
  with h v r f a show ?thesis by (simp add: load_MAR_def)
qed

lemma rad_nodes_error:
  assumes H: "\<forall>s e. flt s = Inl e \<longrightarrow> e = ValueError"
    and m: "map_err (\<lambda>(x, y, z). map_err flt [x, y, z]) ns = Inl e"
  shows "e = ValueError"
proof -
  from map_err_Inl [OF m] obtain x y z where "map_err flt [x, y, z] = Inl e"
    by auto
  from map_err_error [OF H this] show ?thesis .
qed

lemma rad_nodes_convert:
  assumes m: "map_err (\<lambda>(x, y, z). map_err flt [x, y, z]) ns = Inr vs"
  shows "list_all (\<lambda>(x, y, z). all_convert flt [x, y, z]) ns"
  using m by (rule map_err_Inr_list_all) (auto simp: map_err_all_convert)

lemma load_RAD_fails:
  assumes H: "\<forall>s e. flt s = Inl e \<longrightarrow> e = ValueError"
    and ns: "rad_node_section rad = Some ns" and es: "rad_elem_section rad = Some elems"
    and n: "\<not> (list_all (\<lambda>(x, y, z). all_convert flt [x, y, z]) ns \<and>
              list_all (\<lambda>elem. all_convert py_int (drop 3 (py_split (py_strip elem)))) elems)"
  shows "load_RAD flt rad name = Inl ValueError"
proof (cases "map_err (\<lambda>(x, y, z). map_err flt [x, y, z]) ns")
  case (Inl e)
  with rad_nodes_error [OF H Inl] ns show ?thesis
    by (simp add: load_RAD_def)
next
  case (Inr vs)
  from rad_nodes_convert [OF Inr] n have
    "\<not> list_all (\<lambda>elem. all_convert py_int (drop 3 (py_split (py_strip elem)))) elems"
    by simp
  from map_err_rows_not_converting [OF py_int_errors this] Inr rad_rows_rect [OF Inr] ns es
  show ?thesis by (simp add: load_RAD_def)
qed

lemma load_HST_nodes_fail:
  assumes H: "\<forall>s e. flt s = Inl e \<longrightarrow> e = ValueError"
    and ns: "node_sections hst = nsec # nsecs"
    and n: "\<not> list_all (\<lambda>node. all_convert flt (tl (py_split node))) nsec"
  shows "load_HST flt hst name = Inl ValueError"
  using map_err_rows_not_converting [OF H n] ns
  by (simp add: load_HST_def append_rows_def)

lemma load_HST_elems_fail:
  assumes v: "read_HST_sections (\<lambda>node. map_err flt (tl (py_split node))) np_rect
                (node_sections hst) (PyList []) [] 0 = Inr vtab"
    and es: "elem_sections hst = sec # secs"
    and n: "\<not> list_all (\<lambda>elem. all_convert py_int (py_split elem)) sec"
  shows "load_HST flt hst name = Inl ValueError"
  using map_err_rows_not_converting [OF py_int_errors n] v es
  by (simp add: load_HST_def append_rows_def)

lemma load_HST_no_nodes:
  assumes ns: "node_sections hst = []" and es: "elem_sections hst = [sec]"
    and m: "map_err (\<lambda>elem. map_err py_int (py_split elem)) sec = Inr rows"
    and a: "np_asarray_int rows = Inr ftab"
  shows "load_HST flt hst name = Inr (Mesh [] (np_add_scalar ftab (- 1)) name)"
  using assms by (simp add: load_HST_def append_rows_def)

lemma reshape_unknown_width_cases:
  "reshape_unknown_width nv xs = Inl ValueError \<or> (\<exists>rows. reshape_unknown_width nv xs = Inr rows)"
  by (simp add: reshape_unknown_width_def)

lemma load_TEC_fails:
  assumes H: "\<forall>s e. flt s = Inl e \<longrightarrow> e = ValueError"
    and f: "found = Some (nv_s, nf_s, vertices_s, faces_s)"
    and n: "\<not> (all_convert py_int [nv_s, nf_s] \<and> all_convert flt (py_split vertices_s) \<and>
              all_convert py_int (py_split faces_s))"
  shows "load_TEC flt found name = Inl ValueError"
proof (cases "py_int nv_s")
  case (Inl e)
  with py_int_error [OF Inl] f show ?thesis by (simp add: load_TEC_def)
next
  case nv: (Inr nv)
  show ?thesis
  proof (cases "py_int nf_s")
    case (Inl e)
    with py_int_error [OF Inl] nv f show ?thesis by (simp add: load_TEC_def)
  next
    case nf: (Inr nf)
    from nv nf have c: "all_convert py_int [nv_s, nf_s]"
      by (simp add: all_convert_def)
    show ?thesis
    proof (cases "map_err flt (py_split vertices_s)")
      case (Inl e)
      with map_err_error [OF H Inl] nv nf f show ?thesis by (simp add: load_TEC_def)
    next
      case (Inr xs)
      from map_err_all_convert [OF Inr] c n have "\<not> all_convert py_int (py_split faces_s)"
        by simp
      from map_err_not_converting [OF py_int_errors this] Inr nv nf f
        reshape_unknown_width_cases [of nv xs]
      show ?thesis by (auto simp: load_TEC_def)
    qed
  qed
qed

lemma read_triangle_error:
  assumes r: "read_triangle l = Inl e" and ne: "py_split l \<noteq> []"
  shows "e = ValueError"
proof (cases "map_err py_int (py_split l)")
  case (Inl e')
  with r have "e' = e" by (simp add: read_triangle_def)
  with map_err_error [OF py_int_errors Inl] show ?thesis by simp
next
  case (Inr ints)
  from map_err_length [OF Inr] ne have "ints \<noteq> []" by auto
  then have "length ints - 3 < length ints" by (cases ints) auto
  then have "py_last 3 ints \<noteq> []" unfolding py_last_def by simp
  with r Inr show ?thesis
    by (cases "py_last 3 ints") (simp_all add: read_triangle_def)
qed

lemma read_quadrangle_error: "read_quadrangle l = Inl e \<Longrightarrow> e = ValueError"
proof (cases "map_err py_int (py_split l)")
  case (Inl e')
  assume "read_quadrangle l = Inl e"
  with Inl have "e' = e" by (simp add: read_quadrangle_def)
  with map_err_error [OF py_int_errors Inl] show ?thesis by simp
next
  case (Inr ints)
  assume "read_quadrangle l = Inl e"
  with Inr show ?thesis by (simp add: read_quadrangle_def)
qed

lemma load_MSH_fails:
  assumes H: "\<forall>s e. flt s = Inl e \<longrightarrow> e = ValueError"
    and nd: "Nodes msh = Some (nb_nodes_s, nodes_data)"
    and el: "Elements msh = Some (nb_elts_s, elts_data)"
    and ne: "list_all (\<lambda>l. py_split l \<noteq> []) (tri_elts msh)"
    and n: "\<not> (all_convert flt (py_split nodes_data) \<and>
              list_all (\<lambda>l. all_convert py_int (py_split l)) (tri_elts msh @ quad_elts msh))"
  shows "load_MSH flt msh name = Inl ValueError"
proof (cases "map_err flt (py_split nodes_data)")
  case (Inl e)
  with map_err_error [OF H Inl] nd el show ?thesis by (simp add: load_MSH_def)
next
  case (Inr xs)
  show ?thesis
  proof (cases "length xs mod 4 = 0")
    case False
    with Inr nd el show ?thesis by (simp add: load_MSH_def)
  next
    case True
    show ?thesis
    proof (cases "map_err read_triangle (tri_elts msh)")
      case (Inl e)
      from map_err_Inl [OF Inl] obtain l where
        l: "l \<in> set (tri_elts msh)" "read_triangle l = Inl e"
        by blast
      with ne have "py_split l \<noteq> []" by (simp add: list_all_iff)
      from read_triangle_error [OF l(2) this] Inl Inr True nd el show ?thesis
        by (simp add: load_MSH_def)
    next
      case tris: (Inr tris)
      have t: "list_all (\<lambda>l. all_convert py_int (py_split l)) (tri_elts msh)"
        using tris by (rule map_err_Inr_list_all) (rule read_triangle_tokens)
      show ?thesis
      proof (cases "map_err read_quadrangle (quad_elts msh)")
        case (Inl e)
        from map_err_Inl [OF Inl] obtain l where "read_quadrangle l = Inl e"
          by blast
        from read_quadrangle_error [OF this] Inl tris Inr True nd el show ?thesis
          by (simp add: load_MSH_def)
      next
        case quads: (Inr quads)
        have "list_all (\<lambda>l. all_convert py_int (py_split l)) (quad_elts msh)"
          using quads by (rule map_err_Inr_list_all) (rule read_quadrangle_tokens)
        with t map_err_all_convert [OF Inr] n show ?thesis by simp
      qed
    qed
  qed
qed

text \<open>
  Claim C2 (amended).  The loaders have no error of their own for a malformed section; what
  they do when a region is missing depends on the loader.  \<open>load_RAD\<close>, \<open>load_TEC\<close> and
  \<open>load_MSH\<close> fail with an attribute error when the pattern of the node region or of the
  element region is not found (\<open>load_RAD\<close> looks for the element region once the node lines
  are converted).  \<open>load_HST\<close> returns no mesh when no element section is found
  (with a type error when no node section is found either).  \<open>load_MAR\<close> returns no mesh when
  no line after the header is the sentinel line.  Whenever one of the eight loaders returns a
  mesh, every token of the vertex and face records that it converts is accepted by the
  conversion.  \<open>int\<close> fails with \<open>ValueError\<close> only, and a row of tokens that does not
  convert fails with the error of the conversion of one of its tokens.

  When \<open>float\<close> fails with \<open>ValueError\<close> only, as \<open>int\<close> does, a token that does not convert
  makes the loader itself fail with \<open>ValueError\<close>: \<open>load_NAT\<close> and \<open>load_NEM\<close> whenever the
  counts, or a token of the counted vertex and face lines, do not convert; \<open>load_GDF\<close> when
  the three lines after the title have their tokens and the face count is not a natural
  number or a token of the vertex lines does not convert; \<open>load_MAR\<close> when a token of the
  vertex lines, of the face lines or the symmetry flag does not convert and the lines
  before it were read (no line before the sentinel is empty); \<open>load_RAD\<close>, \<open>load_TEC\<close> and
  \<open>load_MSH\<close> when their regions are found and a token does not convert (for \<open>load_MSH\<close>
  when every triangle line has a token); \<open>load_HST\<close> when a token of the first node section,
  or of the first element section once the node sections were read, does not convert.

  A region without records does not make a loader fail: with counts that are not positive
  \<open>load_NAT\<close> and \<open>load_NEM\<close> return a mesh with empty tables, as \<open>load_GDF\<close> does with
  the face count 0, and \<open>load_HST\<close> returns a mesh with an empty vertex table when it finds
  one element section and no node section.
\<close>

theorem decoder_failures:
  "(rad_node_section rad = None \<longrightarrow> load_RAD flt rad name = Inl AttributeError)
   \<and> (rad_node_section rad = Some nodes \<and>
        map_err (\<lambda>(x, y, z). map_err flt [x, y, z]) nodes = Inr vs \<and>
        rad_elem_section rad = None \<longrightarrow> load_RAD flt rad name = Inl AttributeError)
   \<and> load_TEC flt None name = Inl AttributeError
   \<and> (Nodes msh = None \<or> Elements msh = None \<longrightarrow> load_MSH flt msh name = Inl AttributeError)
   \<and> (elem_sections hst = [] \<longrightarrow> load_HST flt hst name \<noteq> Inr m)
   \<and> (elem_sections hst = [] \<and> node_sections hst = [] \<longrightarrow>
        load_HST flt hst name = Inl TypeError)
   \<and> (list_all (\<lambda>l. \<not> is_sentinel l) (tl ifile) \<longrightarrow> load_MAR flt ifile name \<noteq> Inr r)
   \<and> (load_NAT flt ifile name = Inr m \<longrightarrow>
        (\<exists>nv nf.
           map_err py_int (py_split (fst (readline (snd (readline ifile))))) = Inr [nv, nf] \<and>
           list_all (\<lambda>l. all_convert flt (py_split l)) (next_lines (nat nv) (drop 2 ifile)) \<and>
           list_all (\<lambda>l. all_convert py_int (py_split l))
             (next_lines (nat nf) (drop (2 + nat nv) ifile))))
   \<and> (load_NEM flt ifile name = Inr m \<longrightarrow>
        (\<exists>nv nf.
           py_int (fst (readline ifile)) = Inr nv \<and>
           py_int (fst (readline (snd (readline ifile)))) = Inr nf \<and>
           list_all (\<lambda>l. all_convert flt (py_split l)) (next_lines (nat nv) (drop 2 ifile)) \<and>
           list_all (\<lambda>l. all_convert py_int (py_split l))
             (next_lines (nat nf) (drop (2 + nat nv) ifile))))
   \<and> (load_GDF flt ifile name = Inr m \<longrightarrow>
        (\<exists>nf. py_int (hd (py_split (ifile ! 3))) = Inr (int nf) \<and>
           4 + 4 * nf \<le> length ifile \<and>
           list_all (\<lambda>l. all_convert flt (py_split l)) (take (4 * nf) (drop 4 ifile))))
   \<and> (load_MAR flt ifile name = Inr r \<longrightarrow>
        list_all (\<lambda>l. all_convert flt (tl (py_split l)))
          (takeWhile (\<lambda>l. \<not> is_sentinel l) (tl ifile)) \<and>
        list_all (\<lambda>l. all_convert py_int (py_split l))
          (takeWhile (\<lambda>l. \<not> is_sentinel l)
             (drop (Suc (length (takeWhile (\<lambda>l. \<not> is_sentinel l) (tl ifile)))) (tl ifile))))
   \<and> (load_RAD flt rad name = Inr m \<longrightarrow>
        (\<exists>ns elems.
           rad_node_section rad = Some ns \<and> rad_elem_section rad = Some elems \<and>
           list_all (\<lambda>(x, y, z). all_convert flt [x, y, z]) ns \<and>
           list_all (\<lambda>elem. all_convert py_int (drop 3 (py_split (py_strip elem)))) elems))
   \<and> (load_HST flt hst name = Inr m \<longrightarrow>
        (\<exists>sec secs.
           elem_sections hst = sec # secs \<and>
           list_all (\<lambda>elem. all_convert py_int (py_split elem)) sec \<and>
           (case node_sections hst of
              [] \<Rightarrow> mesh_vertices m = []
            | nsec # nsecs \<Rightarrow> list_all (\<lambda>node. all_convert flt (tl (py_split node))) nsec)))
   \<and> (load_TEC flt found name = Inr m \<longrightarrow>
        (\<exists>nv_s nf_s vertices_s faces_s.
           found = Some (nv_s, nf_s, vertices_s, faces_s) \<and>
           all_convert py_int [nv_s, nf_s] \<and>
           all_convert flt (py_split vertices_s) \<and>
           all_convert py_int (py_split faces_s)))
   \<and> (load_MSH flt msh name = Inr m \<longrightarrow>
        (\<exists>nb_nodes_s nodes_data.
           Nodes msh = Some (nb_nodes_s, nodes_data) \<and>
           all_convert flt (py_split nodes_data) \<and>
           list_all (\<lambda>l. all_convert py_int (py_split l)) (tri_elts msh @ quad_elts msh)))
   \<and> (py_int s = Inl e \<longrightarrow> e = ValueError)
   \<and> (map_err conv toks = Inl e \<longrightarrow> (\<exists>t\<in>set toks. conv t = Inl e))
   \<and> ((\<forall>s e. flt s = Inl e \<longrightarrow> e = ValueError) \<longrightarrow>
        (\<not> (\<exists>nv nf.
        map_err py_int (py_split (fst (readline (snd (readline ifile))))) = Inr [nv, nf] \<and>
        list_all (\<lambda>l. all_convert flt (py_split l)) (next_lines (nat nv) (drop 2 ifile)) \<and>
        list_all (\<lambda>l. all_convert py_int (py_split l))
          (next_lines (nat nf) (drop (2 + nat nv) ifile))) \<longrightarrow>
           load_NAT flt ifile name = Inl ValueError) \<and>
        (\<not> (\<exists>nv nf.
        py_int (fst (readline ifile)) = Inr nv \<and>
        py_int (fst (readline (snd (readline ifile)))) = Inr nf \<and>
        list_all (\<lambda>l. all_convert flt (py_split l)) (next_lines (nat nv) (drop 2 ifile)) \<and>
        list_all (\<lambda>l. all_convert py_int (py_split l))
          (next_lines (nat nf) (drop (2 + nat nv) ifile))) \<longrightarrow>
           load_NEM flt ifile name = Inl ValueError) \<and>
        (next_lines 4 ifile = [title, la, lb, lc] \<and> two_tokens la = Inr p \<and>
        two_tokens lb = Inr q \<and> py_split lc = t # ts \<and>
        \<not> (\<exists>nf. py_int t = Inr (int nf) \<and>
              list_all (\<lambda>l. all_convert flt (py_split l))
                (next_lines (4 * nf) (drop 4 ifile))) \<longrightarrow>
           load_GDF flt ifile name = Inl ValueError) \<and>
        (py_split header = [u, symmetric_mesh] \<and>
        list_all (\<lambda>l. py_split l \<noteq> []) (takeWhile (\<lambda>l. \<not> is_sentinel l) rest) \<and>
        \<not> list_all (\<lambda>l. all_convert flt (tl (py_split l)))
            (takeWhile (\<lambda>l. \<not> is_sentinel l) rest) \<longrightarrow>
           load_MAR flt (header # rest) name = Inl ValueError) \<and>
        (py_split header = [u, symmetric_mesh] \<and>
        read_MAR_vertices flt rest = Inr (vs, lsv) \<and>
        list_all (\<lambda>l. py_split l \<noteq> []) (takeWhile (\<lambda>l. \<not> is_sentinel l) lsv) \<and>
        \<not> list_all (\<lambda>l. all_convert py_int (py_split l))
            (takeWhile (\<lambda>l. \<not> is_sentinel l) lsv) \<longrightarrow>
           load_MAR flt (header # rest) name = Inl ValueError) \<and>
        (py_split header = [u, symmetric_mesh] \<and>
        read_MAR_vertices flt rest = Inr (vs, lsv) \<and> np_rect vs = Inr vtab \<and>
        read_MAR_faces lsv = Inr (fs, lsf) \<and> np_asarray_int fs = Inr ftab \<and>
        \<not> all_convert py_int [symmetric_mesh] \<longrightarrow>
           load_MAR flt (header # rest) name = Inl ValueError) \<and>
        (rad_node_section rad = Some ns \<and> rad_elem_section rad = Some elems \<and>
        \<not> (list_all (\<lambda>(x, y, z). all_convert flt [x, y, z]) ns \<and>
           list_all (\<lambda>elem. all_convert py_int (drop 3 (py_split (py_strip elem)))) elems) \<longrightarrow>
           load_RAD flt rad name = Inl ValueError) \<and>
        (node_sections hst = nsec # nsecs \<and>
        \<not> list_all (\<lambda>node. all_convert flt (tl (py_split node))) nsec \<longrightarrow>
           load_HST flt hst name = Inl ValueError) \<and>
        (read_HST_sections (\<lambda>node. map_err flt (tl (py_split node))) np_rect
          (node_sections hst) (PyList []) [] 0 = Inr vtab \<and>
        elem_sections hst = sec # secs \<and>
        \<not> list_all (\<lambda>elem. all_convert py_int (py_split elem)) sec \<longrightarrow>
           load_HST flt hst name = Inl ValueError) \<and>
        (found = Some (nv_s, nf_s, vertices_s, faces_s) \<and>
        \<not> (all_convert py_int [nv_s, nf_s] \<and> all_convert flt (py_split vertices_s) \<and>
           all_convert py_int (py_split faces_s)) \<longrightarrow>
           load_TEC flt found name = Inl ValueError) \<and>
        (Nodes msh = Some (nb_nodes_s, nodes_data) \<and>
        Elements msh = Some (nb_elts_s, elts_data) \<and>
        list_all (\<lambda>l. py_split l \<noteq> []) (tri_elts msh) \<and>
        \<not> (all_convert flt (py_split nodes_data) \<and>
           list_all (\<lambda>l. all_convert py_int (py_split l)) (tri_elts msh @ quad_elts msh)) \<longrightarrow>
           load_MSH flt msh name = Inl ValueError))
   \<and> (map_err py_int (py_split (fst (readline (snd (readline ifile))))) = Inr [cv, cf] \<and>
        cv \<le> 0 \<and> cf \<le> 0 \<longrightarrow>
        load_NAT flt ifile name = Inr (Mesh [] [] name))
   \<and> (py_int (fst (readline ifile)) = Inr cv \<and>
        py_int (fst (readline (snd (readline ifile)))) = Inr cf \<and> cv \<le> 0 \<and> cf \<le> 0 \<longrightarrow>
        load_NEM flt ifile name = Inr (Mesh [] [] name))
   \<and> (next_lines 4 ifile = [title, la, lb, lc] \<and> two_tokens la = Inr p \<and>
        two_tokens lb = Inr q \<and> py_split lc = t # ts \<and> py_int t = Inr 0 \<longrightarrow>
        load_GDF flt ifile name = Inr (Mesh [] [] name))
   \<and> (node_sections hst = [] \<and> elem_sections hst = [sec] \<and>
        map_err (\<lambda>elem. map_err py_int (py_split elem)) sec = Inr rows \<and>
        np_asarray_int rows = Inr ftab \<longrightarrow>
        load_HST flt hst name = Inr (Mesh [] (np_add_scalar ftab (- 1)) name))"
proof (intro conjI impI)
  assume "rad_node_section rad = None"
  then show "load_RAD flt rad name = Inl AttributeError"
    by (simp add: load_RAD_def)
next
  assume "rad_node_section rad = Some nodes \<and>
        map_err (\<lambda>(x, y, z). map_err flt [x, y, z]) nodes = Inr vs \<and>
        rad_elem_section rad = None"
  then show "load_RAD flt rad name = Inl AttributeError"
    using rad_rows_rect [of flt nodes vs] by (simp add: load_RAD_def)
next
  show "load_TEC flt None name = Inl AttributeError"
    by (simp add: load_TEC_def)
next
  assume "Nodes msh = None \<or> Elements msh = None"
  then show "load_MSH flt msh name = Inl AttributeError"
    by (auto simp: load_MSH_def split: option.splits)
next
  assume "elem_sections hst = []"
  then show "load_HST flt hst name \<noteq> Inr m"
    by (rule load_HST_no_elements)
next
  assume "elem_sections hst = [] \<and> node_sections hst = []"
  then show "load_HST flt hst name = Inl TypeError"
    by (simp add: load_HST_def)
next
  assume "list_all (\<lambda>l. \<not> is_sentinel l) (tl ifile)"
  then show "load_MAR flt ifile name \<noteq> Inr r"
    by (rule load_MAR_no_sentinel)
next
  assume "load_NAT flt ifile name = Inr m"
  from load_NAT_Inr [OF this] obtain nv nf vs src where
    h: "map_err py_int (py_split (fst (readline (snd (readline ifile))))) = Inr [nv, nf]" and
    a: "map_err (\<lambda>l. map_err flt (py_split l)) (next_lines (nat nv) (drop 2 ifile)) = Inr vs" and
    b: "map_err (\<lambda>l. map_err py_int (py_split l))
       (next_lines (nat nf) (drop (2 + nat nv) ifile)) = Inr src"
    by blast
  from h map_err_rows_all_convert [OF a] map_err_rows_all_convert [OF b] show "\<exists>nv nf.
           map_err py_int (py_split (fst (readline (snd (readline ifile))))) = Inr [nv, nf] \<and>
           list_all (\<lambda>l. all_convert flt (py_split l)) (next_lines (nat nv) (drop 2 ifile)) \<and>
           list_all (\<lambda>l. all_convert py_int (py_split l))
             (next_lines (nat nf) (drop (2 + nat nv) ifile))"
    by blast
next
  assume "load_NEM flt ifile name = Inr m"
  from load_NEM_Inr [OF this] obtain nv nf vs src where
    h: "py_int (fst (readline ifile)) = Inr nv"
       "py_int (fst (readline (snd (readline ifile)))) = Inr nf" and
    a: "map_err (\<lambda>l. map_err flt (py_split l)) (next_lines (nat nv) (drop 2 ifile)) = Inr vs" and
    b: "map_err (\<lambda>l. map_err py_int (py_split l))
       (next_lines (nat nf) (drop (2 + nat nv) ifile)) = Inr src"
    by blast
  from h map_err_rows_all_convert [OF a] map_err_rows_all_convert [OF b] show "\<exists>nv nf.
           py_int (fst (readline ifile)) = Inr nv \<and>
           py_int (fst (readline (snd (readline ifile)))) = Inr nf \<and>
           list_all (\<lambda>l. all_convert flt (py_split l)) (next_lines (nat nv) (drop 2 ifile)) \<and>
           list_all (\<lambda>l. all_convert py_int (py_split l))
             (next_lines (nat nf) (drop (2 + nat nv) ifile))"
    by blast
next
  assume "load_GDF flt ifile name = Inr m"
  from load_GDF_Inr [OF this] obtain nf where
    h: "4 + 4 * nf \<le> length ifile" "py_int (hd (py_split (ifile ! 3))) = Inr (int nf)" and
    a: "map_err (gdf_row flt) (take (4 * nf) (drop 4 ifile)) = Inr (mesh_vertices m)"
    by blast
  from h gdf_rows_all_convert [OF a] show "\<exists>nf. py_int (hd (py_split (ifile ! 3))) = Inr (int nf) \<and>
           4 + 4 * nf \<le> length ifile \<and>
           list_all (\<lambda>l. all_convert flt (py_split l)) (take (4 * nf) (drop 4 ifile))"
    by blast
next
  assume ok: "load_MAR flt ifile name = Inr r"
  from load_MAR_Inr [OF ok] obtain vs src where
    a: "map_err (\<lambda>l. map_err flt (tl (py_split l)))
       (takeWhile (\<lambda>l. \<not> is_sentinel l) (tl ifile)) = Inr vs" and
    b: "map_err (\<lambda>l. map_err py_int (py_split l))
       (takeWhile (\<lambda>l. \<not> is_sentinel l)
          (drop (Suc (length (takeWhile (\<lambda>l. \<not> is_sentinel l) (tl ifile)))) (tl ifile)))
       = Inr src"
    by blast
  from map_err_rows_all_convert [OF a]
  show "list_all (\<lambda>l. all_convert flt (tl (py_split l)))
          (takeWhile (\<lambda>l. \<not> is_sentinel l) (tl ifile))" .
  from map_err_rows_all_convert [OF b]
  show "list_all (\<lambda>l. all_convert py_int (py_split l))
          (takeWhile (\<lambda>l. \<not> is_sentinel l)
             (drop (Suc (length (takeWhile (\<lambda>l. \<not> is_sentinel l) (tl ifile)))) (tl ifile)))" .
next
  assume "load_RAD flt rad name = Inr m"
  from load_RAD_Inr [OF this] obtain ns elems vs src where
    n: "rad_node_section rad = Some ns" and
    a: "map_err (\<lambda>(x, y, z). map_err flt [x, y, z]) ns = Inr vs" and
    e: "rad_elem_section rad = Some elems" and
    b: "map_err (\<lambda>elem. map_err py_int (drop 3 (py_split (py_strip elem)))) elems = Inr src"
    by blast
  have "list_all (\<lambda>(x, y, z). all_convert flt [x, y, z]) ns"
    using a by (rule map_err_Inr_list_all) (auto simp: map_err_all_convert)
  with n e map_err_rows_all_convert [OF b]
  show "\<exists>ns elems.
           rad_node_section rad = Some ns \<and> rad_elem_section rad = Some elems \<and>
           list_all (\<lambda>(x, y, z). all_convert flt [x, y, z]) ns \<and>
           list_all (\<lambda>elem. all_convert py_int (drop 3 (py_split (py_strip elem)))) elems"
    by blast
next
  assume "load_HST flt hst name = Inr m"
  from load_HST_Inr [OF this] obtain sec secs src where
    s: "elem_sections hst = sec # secs" and
    b: "map_err (\<lambda>elem. map_err py_int (py_split elem)) sec = Inr src" and
    v: "case node_sections hst of
        [] \<Rightarrow> mesh_vertices m = []
      | nsec # nsecs \<Rightarrow>
          list_all (\<lambda>s. s = []) nsecs \<and>
          (\<exists>vs. map_err (\<lambda>node. map_err flt (tl (py_split node))) nsec = Inr vs \<and>
             mesh_vertices m = concat (replicate (Suc (length nsecs)) vs))"
    by blast
  have "case node_sections hst of
              [] \<Rightarrow> mesh_vertices m = []
            | nsec # nsecs \<Rightarrow> list_all (\<lambda>node. all_convert flt (tl (py_split node))) nsec"
    using v by (auto split: list.splits dest: map_err_rows_all_convert)
  with s map_err_rows_all_convert [OF b]
  show "\<exists>sec secs.
           elem_sections hst = sec # secs \<and>
           list_all (\<lambda>elem. all_convert py_int (py_split elem)) sec \<and>
           (case node_sections hst of
              [] \<Rightarrow> mesh_vertices m = []
            | nsec # nsecs \<Rightarrow> list_all (\<lambda>node. all_convert flt (tl (py_split node))) nsec)"
    by blast
next
  assume "load_TEC flt found name = Inr m"
  from load_TEC_Inr [OF this] obtain nv_s nf_s vertices_s faces_s nv nf xs ids where
    fd: "found = Some (nv_s, nf_s, vertices_s, faces_s)" and
    c: "py_int nv_s = Inr nv" "py_int nf_s = Inr nf" and
    x: "map_err flt (py_split vertices_s) = Inr xs" and
    i: "map_err py_int (py_split faces_s) = Inr ids"
    by blast
  from c have "all_convert py_int [nv_s, nf_s]"
    by (simp add: all_convert_def)
  with fd map_err_all_convert [OF x] map_err_all_convert [OF i]
  show "\<exists>nv_s nf_s vertices_s faces_s.
           found = Some (nv_s, nf_s, vertices_s, faces_s) \<and>
           all_convert py_int [nv_s, nf_s] \<and>
           all_convert flt (py_split vertices_s) \<and>
           all_convert py_int (py_split faces_s)"
    by blast
next
  assume "load_MSH flt msh name = Inr m"
  from load_MSH_Inr [OF this] obtain nb_nodes_s nodes_data xs tris quads where
    n: "Nodes msh = Some (nb_nodes_s, nodes_data)" and
    x: "map_err flt (py_split nodes_data) = Inr xs" and
    t: "map_err read_triangle (tri_elts msh) = Inr tris" and
    q: "map_err read_quadrangle (quad_elts msh) = Inr quads"
    by blast
  have "list_all (\<lambda>l. all_convert py_int (py_split l)) (tri_elts msh)"
    using t by (rule map_err_Inr_list_all) (rule read_triangle_tokens)
  moreover have "list_all (\<lambda>l. all_convert py_int (py_split l)) (quad_elts msh)"
    using q by (rule map_err_Inr_list_all) (rule read_quadrangle_tokens)
  ultimately show "\<exists>nb_nodes_s nodes_data.
           Nodes msh = Some (nb_nodes_s, nodes_data) \<and>
           all_convert flt (py_split nodes_data) \<and>
           list_all (\<lambda>l. all_convert py_int (py_split l)) (tri_elts msh @ quad_elts msh)"
    using n map_err_all_convert [OF x] by simp
next
  assume "py_int s = Inl e"
  then show "e = ValueError" by (rule py_int_error)
next
  assume "map_err conv toks = Inl e"
  then show "\<exists>t\<in>set toks. conv t = Inl e" by (rule map_err_Inl)
next
  assume H: "\<forall>s e. flt s = Inl e \<longrightarrow> e = ValueError"
    and a: "\<not> (\<exists>nv nf.
        map_err py_int (py_split (fst (readline (snd (readline ifile))))) = Inr [nv, nf] \<and>
        list_all (\<lambda>l. all_convert flt (py_split l)) (next_lines (nat nv) (drop 2 ifile)) \<and>
        list_all (\<lambda>l. all_convert py_int (py_split l))
          (next_lines (nat nf) (drop (2 + nat nv) ifile)))"
  show "load_NAT flt ifile name = Inl ValueError"
    using load_NAT_fails [of flt ifile name] H a by blast
next
  assume H: "\<forall>s e. flt s = Inl e \<longrightarrow> e = ValueError"
    and a: "\<not> (\<exists>nv nf.
        py_int (fst (readline ifile)) = Inr nv \<and>
        py_int (fst (readline (snd (readline ifile)))) = Inr nf \<and>
        list_all (\<lambda>l. all_convert flt (py_split l)) (next_lines (nat nv) (drop 2 ifile)) \<and>
        list_all (\<lambda>l. all_convert py_int (py_split l))
          (next_lines (nat nf) (drop (2 + nat nv) ifile)))"
  show "load_NEM flt ifile name = Inl ValueError"
    using load_NEM_fails [of flt ifile name] H a by blast
next
  assume H: "\<forall>s e. flt s = Inl e \<longrightarrow> e = ValueError"
    and a: "next_lines 4 ifile = [title, la, lb, lc] \<and> two_tokens la = Inr p \<and>
        two_tokens lb = Inr q \<and> py_split lc = t # ts \<and>
        \<not> (\<exists>nf. py_int t = Inr (int nf) \<and>
              list_all (\<lambda>l. all_convert flt (py_split l))
                (next_lines (4 * nf) (drop 4 ifile)))"
  show "load_GDF flt ifile name = Inl ValueError"
    using load_GDF_fails [of flt ifile title la lb lc p q t ts name] H a by blast
next
  assume H: "\<forall>s e. flt s = Inl e \<longrightarrow> e = ValueError"
    and a: "py_split header = [u, symmetric_mesh] \<and>
        list_all (\<lambda>l. py_split l \<noteq> []) (takeWhile (\<lambda>l. \<not> is_sentinel l) rest) \<and>
        \<not> list_all (\<lambda>l. all_convert flt (tl (py_split l)))
            (takeWhile (\<lambda>l. \<not> is_sentinel l) rest)"
  show "load_MAR flt (header # rest) name = Inl ValueError"
    using load_MAR_vertices_fail [of flt header u symmetric_mesh rest name] H a by blast
next
  assume H: "\<forall>s e. flt s = Inl e \<longrightarrow> e = ValueError"
    and a: "py_split header = [u, symmetric_mesh] \<and>
        read_MAR_vertices flt rest = Inr (vs, lsv) \<and>
        list_all (\<lambda>l. py_split l \<noteq> []) (takeWhile (\<lambda>l. \<not> is_sentinel l) lsv) \<and>
        \<not> list_all (\<lambda>l. all_convert py_int (py_split l))
            (takeWhile (\<lambda>l. \<not> is_sentinel l) lsv)"
  show "load_MAR flt (header # rest) name = Inl ValueError"
    using load_MAR_faces_fail [of header u symmetric_mesh flt rest vs lsv name] H a by blast
next
  assume H: "\<forall>s e. flt s = Inl e \<longrightarrow> e = ValueError"
    and a: "py_split header = [u, symmetric_mesh] \<and>
        read_MAR_vertices flt rest = Inr (vs, lsv) \<and> np_rect vs = Inr vtab \<and>
        read_MAR_faces lsv = Inr (fs, lsf) \<and> np_asarray_int fs = Inr ftab \<and>
        \<not> all_convert py_int [symmetric_mesh]"
  show "load_MAR flt (header # rest) name = Inl ValueError"
    using load_MAR_flag_fails [of header u symmetric_mesh flt rest vs lsv vtab fs lsf ftab name] H a by blast
next
  assume H: "\<forall>s e. flt s = Inl e \<longrightarrow> e = ValueError"
    and a: "rad_node_section rad = Some ns \<and> rad_elem_section rad = Some elems \<and>
        \<not> (list_all (\<lambda>(x, y, z). all_convert flt [x, y, z]) ns \<and>
           list_all (\<lambda>elem. all_convert py_int (drop 3 (py_split (py_strip elem)))) elems)"
  show "load_RAD flt rad name = Inl ValueError"
    using load_RAD_fails [of flt rad ns elems name] H a by blast
next
  assume H: "\<forall>s e. flt s = Inl e \<longrightarrow> e = ValueError"
    and a: "node_sections hst = nsec # nsecs \<and>
        \<not> list_all (\<lambda>node. all_convert flt (tl (py_split node))) nsec"
  show "load_HST flt hst name = Inl ValueError"
    using load_HST_nodes_fail [of flt hst nsec nsecs name] H a by blast
next
  assume H: "\<forall>s e. flt s = Inl e \<longrightarrow> e = ValueError"
    and a: "read_HST_sections (\<lambda>node. map_err flt (tl (py_split node))) np_rect
          (node_sections hst) (PyList []) [] 0 = Inr vtab \<and>
        elem_sections hst = sec # secs \<and>
        \<not> list_all (\<lambda>elem. all_convert py_int (py_split elem)) sec"
  show "load_HST flt hst name = Inl ValueError"
    using load_HST_elems_fail [of flt hst vtab sec secs name] H a by blast
next
  assume H: "\<forall>s e. flt s = Inl e \<longrightarrow> e = ValueError"
    and a: "found = Some (nv_s, nf_s, vertices_s, faces_s) \<and>
        \<not> (all_convert py_int [nv_s, nf_s] \<and> all_convert flt (py_split vertices_s) \<and>
           all_convert py_int (py_split faces_s))"
  show "load_TEC flt found name = Inl ValueError"
    using load_TEC_fails [of flt found nv_s nf_s vertices_s faces_s name] H a by blast
next
  assume H: "\<forall>s e. flt s = Inl e \<longrightarrow> e = ValueError"
    and a: "Nodes msh = Some (nb_nodes_s, nodes_data) \<and>
        Elements msh = Some (nb_elts_s, elts_data) \<and>
        list_all (\<lambda>l. py_split l \<noteq> []) (tri_elts msh) \<and>
        \<not> (all_convert flt (py_split nodes_data) \<and>
           list_all (\<lambda>l. all_convert py_int (py_split l)) (tri_elts msh @ quad_elts msh))"
  show "load_MSH flt msh name = Inl ValueError"
    using load_MSH_fails [of flt msh nb_nodes_s nodes_data nb_elts_s elts_data name] H a by blast
next
  assume a: "map_err py_int (py_split (fst (readline (snd (readline ifile))))) = Inr [cv, cf] \<and>
        cv \<le> 0 \<and> cf \<le> 0"
  then show "load_NAT flt ifile name = Inr (Mesh [] [] name)"
    using load_NAT_no_rows [of ifile cv cf flt name] by blast
next
  assume a: "py_int (fst (readline ifile)) = Inr cv \<and>
        py_int (fst (readline (snd (readline ifile)))) = Inr cf \<and> cv \<le> 0 \<and> cf \<le> 0"
  then show "load_NEM flt ifile name = Inr (Mesh [] [] name)"
    using load_NEM_no_rows [of ifile cv cf flt name] by blast
next
  assume a: "next_lines 4 ifile = [title, la, lb, lc] \<and> two_tokens la = Inr p \<and>
        two_tokens lb = Inr q \<and> py_split lc = t # ts \<and> py_int t = Inr 0"
  then show "load_GDF flt ifile name = Inr (Mesh [] [] name)"
    using load_GDF_no_rows [of ifile title la lb lc p q t ts flt name] by blast
next
  assume a: "node_sections hst = [] \<and> elem_sections hst = [sec] \<and>
        map_err (\<lambda>elem. map_err py_int (py_split elem)) sec = Inr rows \<and>
        np_asarray_int rows = Inr ftab"
  then show "load_HST flt hst name = Inr (Mesh [] (np_add_scalar ftab (- 1)) name)"
    using load_HST_no_nodes [of hst sec rows ftab flt name] by blast
qed

theorem decoder_failures_witness:
  "load_RAD example_float \<lparr>rad_node_section = None, rad_elem_section = Some []\<rparr> None =
     Inl AttributeError \<and>
   load_HST example_float \<lparr>node_sections = [], elem_sections = []\<rparr> None = Inl TypeError \<and>
   all_convert py_int (py_split ''1 2 3 1'') \<and>
   load_NAT example_float [''0 0'', ''1 1'', ''0.0 x 0.0'', ''1 1 1 1''] None = Inl ValueError \<and>
   load_NAT example_float [''0 0'', ''1 1'', ''0.0 0.0 0.0'', ''1 1 x 1''] None = Inl ValueError \<and>
   load_TEC example_float (Some (''1'', ''1'', ''0.0 0.0 x'', ''1 1 1 1'')) None =
     Inl ValueError \<and>
   load_NAT example_float [''0 0'', ''0 0''] None = Inr (Mesh [] [] None) \<and>
   load_HST example_float \<lparr>node_sections = [], elem_sections = [[''1 2 3 4'']]\<rparr> None =
     Inr (Mesh [] [[0, 1, 2, 3]] None)"
proof -
  let ?rad = "\<lparr>rad_node_section = None, rad_elem_section = Some []\<rparr>"
  let ?hst = "\<lparr>node_sections = [], elem_sections = []\<rparr>"
  let ?m = "Mesh [[0, 0, 0], [1, 0, 0], [0, 1, 0::real]] [[0, 1, 2, 0]] None"
  note th = decoder_failures [where flt = example_float and rad = ?rad and hst = ?hst
      and name = None and ifile = example_NAT and m = ?m]
  have 1: "load_RAD example_float ?rad None = Inl AttributeError"
    using th [THEN conjunct1] by simp
  have 2: "load_HST example_float ?hst None = Inl TypeError"
    using th [THEN conjunct2, THEN conjunct2, THEN conjunct2, THEN conjunct2, THEN conjunct2,
        THEN conjunct1]
    by simp
  have e: "load_NAT example_float example_NAT None = Inr ?m"
    by code_simp
  from th [THEN conjunct2, THEN conjunct2, THEN conjunct2, THEN conjunct2, THEN conjunct2,
        THEN conjunct2, THEN conjunct2, THEN conjunct1, rule_format, OF e]
  obtain nv nf where
    a: "map_err py_int (py_split (fst (readline (snd (readline example_NAT))))) = Inr [nv, nf]"
    and b: "list_all (\<lambda>l. all_convert py_int (py_split l))
             (next_lines (nat nf) (drop (2 + nat nv) example_NAT))"
    by blast
  have "map_err py_int (py_split (fst (readline (snd (readline example_NAT))))) = Inr [3, 1]"
    by code_simp
  with a have "nv = 3" "nf = 1" by simp_all
  with b have "list_all (\<lambda>l. all_convert py_int (py_split l)) (next_lines 1 (drop 5 example_NAT))"
    by (simp add: numeral_eq_Suc)
  moreover have "next_lines 1 (drop 5 example_NAT) = [''1 2 3 1'']"
    by code_simp
  ultimately have 3: "all_convert py_int (py_split ''1 2 3 1'')"
    by simp
  have H: "\<forall>s e. example_float s = Inl e \<longrightarrow> e = ValueError"
    by (simp add: example_float_def)
  let ?bv = "[''0 0'', ''1 1'', ''0.0 x 0.0'', ''1 1 1 1'']"
  let ?bf = "[''0 0'', ''1 1'', ''0.0 0.0 0.0'', ''1 1 x 1'']"
  have hv: "map_err py_int (py_split (fst (readline (snd (readline ?bv))))) = Inr [1, 1]"
    and hf: "map_err py_int (py_split (fst (readline (snd (readline ?bf))))) = Inr [1, 1]"
    by code_simp+
  have "\<not> list_all (\<lambda>l. all_convert example_float (py_split l))
      (next_lines (nat 1) (drop 2 ?bv))"
    by code_simp
  then have nv: "\<not> (\<exists>nv nf.
        map_err py_int (py_split (fst (readline (snd (readline ?bv))))) = Inr [nv, nf] \<and>
        list_all (\<lambda>l. all_convert example_float (py_split l))
          (next_lines (nat nv) (drop 2 ?bv)) \<and>
        list_all (\<lambda>l. all_convert py_int (py_split l))
          (next_lines (nat nf) (drop (2 + nat nv) ?bv)))"
    unfolding hv by auto
  have "\<not> list_all (\<lambda>l. all_convert py_int (py_split l))
      (next_lines (nat 1) (drop (2 + nat 1) ?bf))"
    by code_simp
  then have nf: "\<not> (\<exists>nv nf.
        map_err py_int (py_split (fst (readline (snd (readline ?bf))))) = Inr [nv, nf] \<and>
        list_all (\<lambda>l. all_convert example_float (py_split l))
          (next_lines (nat nv) (drop 2 ?bf)) \<and>
        list_all (\<lambda>l. all_convert py_int (py_split l))
          (next_lines (nat nf) (drop (2 + nat nv) ?bf)))"
    unfolding hf by auto
  have 4: "load_NAT example_float ?bv None = Inl ValueError"
    using decoder_failures [where flt = example_float and ifile = ?bv and name = None,
        THEN conjunct2, THEN conjunct2, THEN conjunct2, THEN conjunct2, THEN conjunct2, THEN conjunct2, THEN conjunct2, THEN conjunct2, THEN conjunct2, THEN conjunct2, THEN conjunct2, THEN conjunct2, THEN conjunct2, THEN conjunct2, THEN conjunct2, THEN conjunct2, THEN conjunct2, THEN conjunct1, THEN mp, OF H, THEN conjunct1] nv
    by blast
  have 5: "load_NAT example_float ?bf None = Inl ValueError"
    using decoder_failures [where flt = example_float and ifile = ?bf and name = None,
        THEN conjunct2, THEN conjunct2, THEN conjunct2, THEN conjunct2, THEN conjunct2, THEN conjunct2, THEN conjunct2, THEN conjunct2, THEN conjunct2, THEN conjunct2, THEN conjunct2, THEN conjunct2, THEN conjunct2, THEN conjunct2, THEN conjunct2, THEN conjunct2, THEN conjunct2, THEN conjunct1, THEN mp, OF H, THEN conjunct1] nf
    by blast
  let ?found = "Some (''1'', ''1'', ''0.0 0.0 x'', ''1 1 1 1'')"
  have "\<not> all_convert example_float (py_split ''0.0 0.0 x'')"
    by code_simp
  then have 6: "load_TEC example_float ?found None = Inl ValueError"
    using decoder_failures [where flt = example_float and found = ?found and name = None
        and nv_s = "''1''" and nf_s = "''1''" and vertices_s = "''0.0 0.0 x''"
        and faces_s = "''1 1 1 1''",
        THEN conjunct2, THEN conjunct2, THEN conjunct2, THEN conjunct2, THEN conjunct2, THEN conjunct2, THEN conjunct2, THEN conjunct2, THEN conjunct2, THEN conjunct2, THEN conjunct2, THEN conjunct2, THEN conjunct2, THEN conjunct2, THEN conjunct2, THEN conjunct2, THEN conjunct2, THEN conjunct1, THEN mp, OF H, THEN conjunct2, THEN conjunct2, THEN conjunct2, THEN conjunct2, THEN conjunct2, THEN conjunct2, THEN conjunct2, THEN conjunct2, THEN conjunct2, THEN conjunct1]
    by blast
  let ?z = "[''0 0'', ''0 0'']"
  have "map_err py_int (py_split (fst (readline (snd (readline ?z))))) = Inr [0, 0]"
    by code_simp
  then have 7: "load_NAT example_float ?z None = Inr (Mesh [] [] None)"
    using decoder_failures [where flt = example_float and ifile = ?z and name = None
        and cv = 0 and cf = 0, THEN conjunct2, THEN conjunct2, THEN conjunct2, THEN conjunct2, THEN conjunct2, THEN conjunct2, THEN conjunct2, THEN conjunct2, THEN conjunct2, THEN conjunct2, THEN conjunct2, THEN conjunct2, THEN conjunct2, THEN conjunct2, THEN conjunct2, THEN conjunct2, THEN conjunct2, THEN conjunct2, THEN conjunct1]
    by simp
  let ?h = "\<lparr>node_sections = [], elem_sections = [[''1 2 3 4'']]\<rparr>"
  have "map_err (\<lambda>elem. map_err py_int (py_split elem)) [''1 2 3 4''] = Inr [[1, 2, 3, 4]]"
    "np_asarray_int [[1, 2, 3, 4]] = Inr [[1, 2, 3, 4]]"
    "np_add_scalar [[1, 2, 3, 4]] (- 1) = [[0, 1, 2, 3]]"
    by code_simp+
  then have 8: "load_HST example_float ?h None = Inr (Mesh [] [[0, 1, 2, 3]] None)"
    using decoder_failures [where flt = example_float and hst = ?h and name = None
        and sec = "[''1 2 3 4'']" and rows = "[[1, 2, 3, 4]]" and ftab = "[[1, 2, 3, 4]]",
        THEN conjunct2, THEN conjunct2, THEN conjunct2, THEN conjunct2, THEN conjunct2, THEN conjunct2, THEN conjunct2, THEN conjunct2, THEN conjunct2, THEN conjunct2, THEN conjunct2, THEN conjunct2, THEN conjunct2, THEN conjunct2, THEN conjunct2, THEN conjunct2, THEN conjunct2, THEN conjunct2, THEN conjunct2, THEN conjunct2, THEN conjunct2]
    by simp
  from 1 2 3 4 5 6 7 8 show ?thesis
    by (intro conjI)
qed

text \<open>
  Claim C2 (as stated) does not hold: a region that is empty or missing does not always make
  the loader fail.  \<open>load_GDF\<close> with a face count of zero, \<open>load_NEM\<close> and \<open>load_NAT\<close> with
  counts of zero return a mesh with empty tables, and \<open>load_HST\<close> returns a mesh with an
  empty vertex table when the file has an element section and no node section.  Nor does a
  token that does not convert always give the error of the conversion: \<open>load_GDF\<close> fails
  with an index error on a header line with a single token, and \<open>load_MAR\<close> on an empty
  line, before the token \<open>x\<close> of a later line is read.
\<close>

theorem empty_regions_return_mesh:
  "load_GDF example_float [''title'', ''1.0 9.81'', ''0 0'', ''0''] None =
     Inr (Mesh [] [] None) \<and>
   load_NEM example_float [''0'', ''0''] None = Inr (Mesh [] [] None) \<and>
   load_NAT example_float [''0 0'', ''0 0''] None = Inr (Mesh [] [] None) \<and>
   load_HST example_float \<lparr>node_sections = [], elem_sections = [[''1 2 3 4'']]\<rparr> None =
     Inr (Mesh [] [[0, 1, 2, 3]] None) \<and>
   load_GDF example_float
     [''title'', ''1.0'', ''0 0'', ''1'', ''x 0.0 0.0'', ''0.0 0.0 0.0'', ''0.0 0.0 0.0'',
      ''0.0 0.0 0.0''] None = Inl IndexError \<and>
   load_MAR example_float
     [''2 0'', '''', ''1 x 0.0 0.0'', ''0 0.0 0.0 0.0'', ''1 1 1 1'', ''0 0 0 0''] None =
     Inl IndexError"
  by code_simp

subsection \<open>Triangles\<close>















end
